theory Spec2Isabelle
  imports Main "HOL-Library.AList"
begin

section \<open>Inbound de-duplication cache (monitor: \<open>createDedupeCache\<close>)\<close>

text \<open>
  The cache is a JavaScript \<open>Map<string, number>\<close>.  A \<open>Map\<close> iterates in insertion
  order, \<open>set\<close> on a present key keeps the key's position and \<open>set\<close> on an absent key
  appends, so the model is an association list in insertion order with
  \<open>AList.update\<close> for \<open>Map.set\<close>, \<open>AList.delete\<close> for \<open>Map.delete\<close> and \<open>map_of\<close> for
  \<open>Map.get\<close>.  Timestamps are the integer milliseconds of \<open>Date.now()\<close>.
\<close>

record dedupe_options =
  ttlMs :: int
  maxSize :: int

type_synonym dedupe_cache = "(string \<times> int) list"

definition RECENT_MESSAGE_TTL_MS :: int where
  "RECENT_MESSAGE_TTL_MS = 5 * 60000"

definition RECENT_MESSAGE_MAX :: int where
  "RECENT_MESSAGE_MAX = 2000"

definition recentInboundMessages :: dedupe_options where
  "recentInboundMessages = \<lparr>ttlMs = RECENT_MESSAGE_TTL_MS, maxSize = RECENT_MESSAGE_MAX\<rparr>"

text \<open>\<open>for (const [k, v] of cache) if (v < cutoff) cache.delete(k)\<close>\<close>

definition pruneExpired :: "int \<Rightarrow> dedupe_cache \<Rightarrow> dedupe_cache" where
  "pruneExpired cutoff cache = filter (\<lambda>(k, v). \<not> v < cutoff) cache"

text \<open>
  \<open>while (cache.size > maxSize) { oldest = cache.keys().next().value;
  if (!oldest) break; cache.delete(oldest) }\<close>: \<open>oldest\<close> is \<open>undefined\<close> on an empty map
  and falsy for the empty string.
\<close>

function evictOldest :: "int \<Rightarrow> dedupe_cache \<Rightarrow> dedupe_cache" where
  "evictOldest maxSz cache =
     (if int (length cache) > maxSz
      then (case cache of
              [] \<Rightarrow> cache
            | (oldest, _) # _ \<Rightarrow>
                if oldest = [] then cache
                else evictOldest maxSz (AList.delete oldest cache))
      else cache)"
  by pat_completeness auto
termination
proof (relation "measure (\<lambda>(maxSz, cache). length cache)")
  show "wf (measure (\<lambda>(maxSz, cache). length cache))" by simp
next
  fix maxSz :: int and cache :: dedupe_cache and x xs oldest v
  assume "cache = x # xs" "(oldest, v) = x"
  then have "length (AList.delete oldest cache) \<le> length xs"
    by (auto simp: AList.delete_eq le_imp_less_Suc intro: le_trans [OF length_filter_le])
  then show "((maxSz, AList.delete oldest cache), (maxSz, cache)) \<in> measure (\<lambda>(maxSz, cache). length cache)"
    using \<open>cache = x # xs\<close> by simp
qed

declare evictOldest.simps [simp del]

text \<open>
  \<open>check(key, now)\<close>; \<open>key\<close> is \<open>string | undefined | null\<close> (here \<open>string option\<close>) and
  \<open>!key\<close> holds for \<open>undefined\<close>, \<open>null\<close> and the empty string.  The result pairs the
  returned boolean with the cache after the call.
\<close>

definition check :: "dedupe_options \<Rightarrow> string option \<Rightarrow> int \<Rightarrow> dedupe_cache \<Rightarrow> bool \<times> dedupe_cache" where
  "check options key now cache =
     (case key of
        None \<Rightarrow> (False, cache)
      | Some k \<Rightarrow>
          if k = [] then (False, cache)
          else if (case map_of cache k of
                     None \<Rightarrow> False
                   | Some existing \<Rightarrow> now - existing < ttlMs options)
          then (True, AList.update k now (AList.delete k cache))
          else
            (let cache1 = AList.update k now (AList.delete k cache) in
             if int (length cache1) > maxSize options
             then (False, evictOldest (maxSize options)
                            (pruneExpired (now - ttlMs options) cache1))
             else (False, cache1)))"

text \<open>The key \<open>handleMessage\<close> passes: \<open>`${account.accountId}:${messageId}`\<close>.\<close>

definition dedupeKey :: "string \<Rightarrow> string \<Rightarrow> string" where
  "dedupeKey accountId messageId = accountId @ '':'' @ messageId"

text \<open>A sequence of \<open>check\<close> calls on one cache, oldest call first.\<close>

fun checks :: "dedupe_options \<Rightarrow> (string option \<times> int) list \<Rightarrow> dedupe_cache \<Rightarrow> dedupe_cache" where
  "checks options [] cache = cache"
| "checks options ((key, now) # calls) cache = checks options calls (snd (check options key now cache))"

text \<open>
  What every cache reached from the empty map satisfies: keys are unique (it is a
  \<open>Map\<close>) and none is the empty string (\<open>check\<close> returns before recording a falsy key).
\<close>

definition cache_inv :: "dedupe_cache \<Rightarrow> bool" where
  "cache_inv c \<longleftrightarrow> distinct (map fst c) \<and> [] \<notin> fst ` set c"




section \<open>JavaScript strings\<close>

text \<open>
  A string is the list of its code units, taken below 256 (Latin-1), so that a
  \<open>char\<close> is one code unit.  \<open>trim\<close>, \<open>trimStart\<close> and the regular expression class \<open>\s\<close>
  share one set of characters: TAB, LF, VT, FF, CR, SPACE and NO-BREAK SPACE are the
  members of it below 256.
\<close>

definition isWhiteSpace :: "char \<Rightarrow> bool" where
  "isWhiteSpace c \<longleftrightarrow>
     c \<in> {CHR 0x09, CHR 0x0A, CHR 0x0B, CHR 0x0C, CHR 0x0D, CHR 0x20, CHR 0xA0}"

definition trimStart :: "string \<Rightarrow> string" where
  "trimStart s = dropWhile isWhiteSpace s"

definition trimEnd :: "string \<Rightarrow> string" where
  "trimEnd s = rev (dropWhile isWhiteSpace (rev s))"

definition trim :: "string \<Rightarrow> string" where
  "trim s = trimEnd (trimStart s)"

text \<open>
  \<open>toLowerCase\<close> on one code unit: \<open>A\<close>..\<open>Z\<close> and the Latin-1 capitals \<open>0xC0\<close>..\<open>0xDE\<close>
  (without the multiplication sign \<open>0xD7\<close>) move up by \<open>0x20\<close>.
\<close>

definition toLowerChar :: "char \<Rightarrow> char" where
  "toLowerChar c =
     (let n = (of_char c :: nat) in
      if (65 \<le> n \<and> n \<le> 90) \<or> (192 \<le> n \<and> n \<le> 222 \<and> n \<noteq> 215)
      then char_of (n + 32) else c)"

definition toLowerCase :: "string \<Rightarrow> string" where
  "toLowerCase s = map toLowerChar s"

definition startsWith :: "string \<Rightarrow> string \<Rightarrow> bool" where
  "startsWith s p \<longleftrightarrow> take (length p) s = p"

text \<open>
  A match of a literal under the \<open>i\<close> flag: two code units below 256 have the same
  canonical form exactly when \<open>toLowerChar\<close> identifies them.
\<close>

definition startsWithIgnoreCase :: "string \<Rightarrow> string \<Rightarrow> bool" where
  "startsWithIgnoreCase s p \<longleftrightarrow> toLowerCase (take (length p) s) = toLowerCase p"

fun stringIncludes :: "string \<Rightarrow> string \<Rightarrow> bool" where
  "stringIncludes [] sub = (sub = [])"
| "stringIncludes (c # cs) sub = (startsWith (c # cs) sub \<or> stringIncludes cs sub)"

text \<open>\<open>parts.join(sep)\<close>\<close>

fun join :: "string \<Rightarrow> string list \<Rightarrow> string" where
  "join sep [] = []"
| "join sep [x] = x"
| "join sep (x # y # ys) = x @ sep @ join sep (y # ys)"

text \<open>\<open>Array.from(new Set(xs))\<close>: the first occurrence of each element, in order.\<close>

definition uniqueInOrder :: "'a list \<Rightarrow> 'a list" where
  "uniqueInOrder xs = rev (remdups (rev xs))"

text \<open>The decimal rendering of a non-negative integer in a template string.\<close>

fun showNat :: "nat \<Rightarrow> string" where
  "showNat n = (if n < 10 then [char_of (48 + n)] else showNat (n div 10) @ [char_of (48 + n mod 10)])"

declare showNat.simps [simp del]

text \<open>
  The word characters of \<open>\b\<close> and the two replacements of \<open>normalizeMention\<close>:
  every match of \<open>@<mention>\b\<close> (flags \<open>gi\<close>) becomes a space, scanning from the left
  and continuing after each match, and every run of \<open>\s\<close> becomes one space.
\<close>

definition isWordChar :: "char \<Rightarrow> bool" where
  "isWordChar c \<longleftrightarrow>
     (let n = (of_char c :: nat) in
      (48 \<le> n \<and> n \<le> 57) \<or> (65 \<le> n \<and> n \<le> 90) \<or> n = 95 \<or> (97 \<le> n \<and> n \<le> 122))"

definition wordBoundaryAfter :: "char \<Rightarrow> string \<Rightarrow> bool" where
  "wordBoundaryAfter prev rest \<longleftrightarrow>
     isWordChar prev \<noteq> (case rest of [] \<Rightarrow> False | c # _ \<Rightarrow> isWordChar c)"

definition mentionMatchesAt :: "string \<Rightarrow> string \<Rightarrow> bool" where
  "mentionMatchesAt pat s \<longleftrightarrow>
     pat \<noteq> [] \<and> length pat \<le> length s \<and> startsWithIgnoreCase s pat \<and>
     wordBoundaryAfter (last (take (length pat) s)) (drop (length pat) s)"

function replaceMentions :: "string \<Rightarrow> string \<Rightarrow> string" where
  "replaceMentions pat [] = []"
| "replaceMentions pat (c # cs) =
     (if mentionMatchesAt pat (c # cs)
      then CHR '' '' # replaceMentions pat (drop (length pat) (c # cs))
      else c # replaceMentions pat cs)"
  by pat_completeness auto
termination
  by (relation "measure (\<lambda>(pat, s). length s)") (auto simp: mentionMatchesAt_def)

function collapseWhiteSpace :: "string \<Rightarrow> string" where
  "collapseWhiteSpace [] = []"
| "collapseWhiteSpace (c # cs) =
     (if isWhiteSpace c then CHR '' '' # collapseWhiteSpace (dropWhile isWhiteSpace cs)
      else c # collapseWhiteSpace cs)"
  by pat_completeness auto
termination
  by (relation "measure length") (auto intro: le_imp_less_Suc length_dropWhile_le)

text \<open>\<open>normalizeMention(text, mention)\<close>; \<open>!mention\<close> holds for \<open>undefined\<close> and \<open>""\<close>.\<close>

definition normalizeMention :: "string \<Rightarrow> string option \<Rightarrow> string" where
  "normalizeMention text mention =
     (case mention of
        None \<Rightarrow> trim text
      | Some m \<Rightarrow>
          if m = [] then trim text
          else trim (collapseWhiteSpace (replaceMentions (CHR ''@'' # m) text)))"

section \<open>Room kinds, allow-lists and trigger prefixes (monitor helpers)\<close>

datatype chat_type = Direct | Group | Channel

text \<open>\<open>roomKind(roomType)\<close>; \<open>!roomType\<close> holds for \<open>undefined\<close>, \<open>null\<close> and \<open>""\<close>.\<close>

definition roomKind :: "string option \<Rightarrow> chat_type" where
  "roomKind roomType =
     (case roomType of
        None \<Rightarrow> Channel
      | Some rt \<Rightarrow>
          if rt = [] then Channel
          else
            (let t = toLowerCase (trim rt) in
             if t = ''d'' then Direct
             else if t = ''p'' then Group
             else if t = ''l'' then Direct
             else Channel))"

definition channelChatType :: "chat_type \<Rightarrow> chat_type" where
  "channelChatType kind =
     (if kind = Direct then Direct else if kind = Group then Group else Channel)"

text \<open>
  \<open>normalizeAllowEntry(entry)\<close>: the two anchored replacements remove at most one
  leading \<open>rocketchat:\<close> or \<open>user:\<close> (any letter case) and then at most one leading \<open>@\<close>.
\<close>

definition stripChannelPrefix :: "string \<Rightarrow> string" where
  "stripChannelPrefix s =
     (if startsWithIgnoreCase s ''rocketchat:'' \<and> length ''rocketchat:'' \<le> length s
      then drop (length ''rocketchat:'') s
      else if startsWithIgnoreCase s ''user:'' \<and> length ''user:'' \<le> length s
      then drop (length ''user:'') s
      else s)"

definition stripLeadingAt :: "string \<Rightarrow> string" where
  "stripLeadingAt s = (case s of [] \<Rightarrow> [] | c # cs \<Rightarrow> if c = CHR ''@'' then cs else s)"

definition normalizeAllowEntry :: "string \<Rightarrow> string" where
  "normalizeAllowEntry entry =
     (let trimmed = trim entry in
      if trimmed = [] then []
      else if trimmed = ''*'' then ''*''
      else toLowerCase (stripLeadingAt (stripChannelPrefix trimmed)))"

text \<open>
  \<open>normalizeAllowList(entries)\<close>, on the entries as \<open>String(e)\<close> renders them (the
  identity on a string entry).
\<close>

definition normalizeAllowList :: "string list \<Rightarrow> string list" where
  "normalizeAllowList entries =
     uniqueInOrder (filter (\<lambda>e. e \<noteq> []) (map normalizeAllowEntry entries))"

text \<open>
  \<open>isSenderAllowed({senderId, senderName, allowFrom})\<close>; \<open>senderName\<close> is optional and
  an empty name is falsy.
\<close>

definition isSenderAllowed :: "string \<Rightarrow> string option \<Rightarrow> string list \<Rightarrow> bool" where
  "isSenderAllowed senderId senderName allowFrom =
     (if length allowFrom = 0 then False
      else if ''*'' \<in> set allowFrom then True
      else
        (let nId = normalizeAllowEntry senderId;
             nName = (case senderName of
                        None \<Rightarrow> []
                      | Some n \<Rightarrow> if n = [] then [] else normalizeAllowEntry n)
         in list_ex (\<lambda>e. e = nId \<or> (nName \<noteq> [] \<and> e = nName)) allowFrom))"

text \<open>
  The two effective lists of \<open>handleMessage\<close>: the configured entries united with the
  pairing store; the group list falls back to the direct-message entries when no group
  entries are configured.
\<close>

definition effectiveAllowFrom :: "string list \<Rightarrow> string list \<Rightarrow> string list" where
  "effectiveAllowFrom configAllowFrom storeAllowFrom =
     uniqueInOrder (configAllowFrom @ storeAllowFrom)"

definition effectiveGroupAllowFrom :: "string list \<Rightarrow> string list \<Rightarrow> string list \<Rightarrow> string list" where
  "effectiveGroupAllowFrom configGroupAllowFrom configAllowFrom storeAllowFrom =
     uniqueInOrder
       ((if length configGroupAllowFrom > 0 then configGroupAllowFrom else configAllowFrom)
        @ storeAllowFrom)"

definition DEFAULT_ONCHAR_PREFIXES :: "string list" where
  "DEFAULT_ONCHAR_PREFIXES = [''>'', ''!'']"

definition resolveOncharPrefixes :: "string list option \<Rightarrow> string list" where
  "resolveOncharPrefixes prefixes =
     (let cleaned = (case prefixes of
                       None \<Rightarrow> DEFAULT_ONCHAR_PREFIXES
                     | Some ps \<Rightarrow> filter (\<lambda>e. e \<noteq> []) (map trim ps))
      in if length cleaned > 0 then cleaned else DEFAULT_ONCHAR_PREFIXES)"

record onchar_result =
  triggered :: bool
  stripped :: string

text \<open>
  \<open>stripOncharPrefix(text, prefixes)\<close>: the loop over the prefixes, with \<open>trimmed\<close>
  computed once before it and the untouched \<open>text\<close> returned when no prefix matches.
\<close>

fun stripOncharLoop :: "string \<Rightarrow> string \<Rightarrow> string list \<Rightarrow> onchar_result" where
  "stripOncharLoop text trimmed [] = \<lparr>triggered = False, stripped = text\<rparr>"
| "stripOncharLoop text trimmed (prefix # prefixes) =
     (if prefix = [] then stripOncharLoop text trimmed prefixes
      else if startsWith trimmed prefix
      then \<lparr>triggered = True, stripped = trimStart (drop (length prefix) trimmed)\<rparr>
      else stripOncharLoop text trimmed prefixes)"

definition stripOncharPrefix :: "string \<Rightarrow> string list \<Rightarrow> onchar_result" where
  "stripOncharPrefix text prefixes = stripOncharLoop text (trimStart text) prefixes"

section \<open>Messages and the debouncer callbacks (client types, monitor)\<close>

text \<open>
  \<open>RocketChatMessage\<close> and the types it nests.  An optional or nullable field is an
  \<open>option\<close>, with \<open>None\<close> for both \<open>undefined\<close> and \<open>null\<close>.
\<close>

record rc_sender =
  u_id :: string
  u_username :: "string option"
  u_name :: "string option"

record rc_file =
  f_id :: string
  f_name :: "string option"
  f_type :: "string option"

record rc_attachment =
  a_title :: "string option"
  a_title_link :: "string option"
  a_image_url :: "string option"
  a_audio_url :: "string option"
  a_video_url :: "string option"
  a_type :: "string option"

datatype rc_timestamp = TsDate int | TsString string

record rc_message =
  m_id :: string
  m_rid :: "string option"
  m_msg :: "string option"
  m_ts :: "rc_timestamp option"
  m_u :: "rc_sender option"
  m_tmid :: "string option"
  m_file :: "rc_file option"
  m_files :: "rc_file list option"
  m_attachments :: "rc_attachment list option"
  m_t :: "string option"

text \<open>The debouncer's entry type \<open>{ roomId, msg }\<close>.\<close>

record debounce_entry =
  e_roomId :: string
  e_msg :: rc_message

text \<open>\<open>isSystemMessage(msg)\<close>: \<open>Boolean(msg.t?.trim())\<close>\<close>

definition isSystemMessage :: "rc_message \<Rightarrow> bool" where
  "isSystemMessage msg = (case m_t msg of None \<Rightarrow> False | Some t \<Rightarrow> trim t \<noteq> [])"

text \<open>\<open>buildKey(entry)\<close> for an account\<close>

definition buildKey :: "string \<Rightarrow> debounce_entry \<Rightarrow> string" where
  "buildKey accountId entry =
     (let threadId = map_option trim (m_tmid (e_msg entry));
          threadKey = (case threadId of
                         None \<Rightarrow> ''room''
                       | Some tid \<Rightarrow> if tid = [] then ''room'' else ''thread:'' @ tid)
      in ''rocketchat:'' @ accountId @ '':'' @ e_roomId entry @ '':'' @ threadKey)"

text \<open>
  \<open>shouldDebounce(entry)\<close>.  \<open>hasControlCommand\<close> belongs to the plug-in SDK and is a
  parameter (with the configuration it reads applied).  \<open>entry.msg.file\<close> is truthy when
  present and \<open>entry.msg.files?.length\<close> when the array is present and not empty.
\<close>

definition shouldDebounce :: "(string \<Rightarrow> bool) \<Rightarrow> debounce_entry \<Rightarrow> bool" where
  "shouldDebounce hasControlCommand entry =
     (if m_file (e_msg entry) \<noteq> None \<or>
         (case m_files (e_msg entry) of None \<Rightarrow> False | Some fs \<Rightarrow> length fs \<noteq> 0)
      then False
      else
        (let text = (case m_msg (e_msg entry) of None \<Rightarrow> [] | Some s \<Rightarrow> trim s) in
         if text = [] then False
         else \<not> hasControlCommand text))"

text \<open>
  \<open>onFlush(entries)\<close>.  Its only effect is the call of \<open>handleMessage\<close>, so the model
  returns the calls it makes, each with its two arguments.
\<close>

definition combinedText :: "debounce_entry list \<Rightarrow> string" where
  "combinedText entries =
     join [CHR 0x0A]
       (filter (\<lambda>s. s \<noteq> [])
          (map (\<lambda>e. case m_msg (e_msg e) of None \<Rightarrow> [] | Some s \<Rightarrow> trim s) entries))"

definition onFlush :: "debounce_entry list \<Rightarrow> (string \<times> rc_message) list" where
  "onFlush entries =
     (case entries of
        [] \<Rightarrow> []
      | _ # _ \<Rightarrow>
          (let lastEntry = last entries in
           if length entries = 1 then [(e_roomId lastEntry, e_msg lastEntry)]
           else
             (let mergedMsg = (e_msg lastEntry)
                    \<lparr>m_msg := Some (combinedText entries),
                     m_file := None,
                     m_files := None,
                     m_attachments := None\<rparr>
              in [(e_roomId lastEntry, mergedMsg)])))"

text \<open>
  The body of an event as the specification's sentence on merged batches reads it: the
  text as received.
\<close>

definition entryBody :: "debounce_entry \<Rightarrow> string" where
  "entryBody e = (case m_msg (e_msg e) of None \<Rightarrow> [] | Some s \<Rightarrow> s)"

text \<open>A message that carries an identifier, a sender and a text, and nothing else.\<close>

definition textMessage :: "string \<Rightarrow> string \<Rightarrow> string \<Rightarrow> rc_message" where
  "textMessage messageId senderId text =
     \<lparr>m_id = messageId, m_rid = None, m_msg = Some text, m_ts = None,
      m_u = Some \<lparr>u_id = senderId, u_username = None, u_name = None\<rparr>,
      m_tmid = None, m_file = None, m_files = None, m_attachments = None, m_t = None\<rparr>"

definition imageAttachment :: "string \<Rightarrow> rc_attachment" where
  "imageAttachment url =
     \<lparr>a_title = None, a_title_link = None, a_image_url = Some url, a_audio_url = None,
      a_video_url = None, a_type = None\<rparr>"

section \<open>Room and user look-ups with their caches (monitor)\<close>

record rc_room =
  r_id :: string
  r_name :: "string option"
  r_fname :: "string option"
  r_t :: "string option"
  r_topic :: "string option"
  r_teamId :: "string option"

record rc_user =
  usr_id :: string
  usr_username :: "string option"
  usr_name :: "string option"
  usr_status :: "string option"

text \<open>
  How an awaited call ends: with a value, or with a thrown error (its message).  The
  REST calls \<open>fetchChannel\<close> and \<open>fetchUser\<close> are parameters of that type.
\<close>

datatype 'a completion = Returned 'a | Thrown string

definition ROOM_CACHE_TTL_MS :: int where
  "ROOM_CACHE_TTL_MS = 5 * 60000"

definition USER_CACHE_TTL_MS :: int where
  "USER_CACHE_TTL_MS = 10 * 60000"

text \<open>\<open>Map<string, { value: T | null; expiresAt: number }>\<close>; only \<open>get\<close> and \<open>set\<close> are used.\<close>

type_synonym 'a metadata_cache = "string \<rightharpoonup> ('a option \<times> int)"

text \<open>
  \<open>resolveRoomInfo(roomId)\<close>.  \<open>now\<close> is the clock read of the freshness test and
  \<open>later\<close> the read after the awaited fetch, when the entry is stored.  The
  \<open>try\<close>/\<open>catch\<close> statement, reached on a miss and on an expired entry alike, is
  \<open>fetchRoomInfo\<close>: the \<open>try\<close> block is the \<open>Returned\<close> branch and the \<open>catch\<close> block the
  \<open>Thrown\<close> branch.
\<close>

definition fetchRoomInfo ::
  "(string \<Rightarrow> rc_room completion) \<Rightarrow> int \<Rightarrow> string \<Rightarrow> rc_room metadata_cache
     \<Rightarrow> rc_room option completion \<times> rc_room metadata_cache" where
  "fetchRoomInfo fetchChannel later roomId roomCache =
     (case fetchChannel roomId of
        Returned info \<Rightarrow>
          (Returned (Some info), roomCache(roomId \<mapsto> (Some info, later + ROOM_CACHE_TTL_MS)))
      | Thrown err \<Rightarrow>
          (Returned None, roomCache(roomId \<mapsto> (None, later + ROOM_CACHE_TTL_MS))))"

definition resolveRoomInfo ::
  "(string \<Rightarrow> rc_room completion) \<Rightarrow> int \<Rightarrow> int \<Rightarrow> string \<Rightarrow> rc_room metadata_cache
     \<Rightarrow> rc_room option completion \<times> rc_room metadata_cache" where
  "resolveRoomInfo fetchChannel now later roomId roomCache =
     (case roomCache roomId of
        Some (val, expiresAt) \<Rightarrow>
          if expiresAt > now then (Returned val, roomCache)
          else fetchRoomInfo fetchChannel later roomId roomCache
      | None \<Rightarrow> fetchRoomInfo fetchChannel later roomId roomCache)"

definition fetchUserInfo ::
  "(string \<Rightarrow> rc_user completion) \<Rightarrow> int \<Rightarrow> string \<Rightarrow> rc_user metadata_cache
     \<Rightarrow> rc_user option completion \<times> rc_user metadata_cache" where
  "fetchUserInfo fetchUser later uid userCache =
     (case fetchUser uid of
        Returned info \<Rightarrow>
          (Returned (Some info), userCache(uid \<mapsto> (Some info, later + USER_CACHE_TTL_MS)))
      | Thrown err \<Rightarrow>
          (Returned None, userCache(uid \<mapsto> (None, later + USER_CACHE_TTL_MS))))"

definition resolveUserInfo ::
  "(string \<Rightarrow> rc_user completion) \<Rightarrow> int \<Rightarrow> int \<Rightarrow> string \<Rightarrow> rc_user metadata_cache
     \<Rightarrow> rc_user option completion \<times> rc_user metadata_cache" where
  "resolveUserInfo fetchUser now later uid userCache =
     (case userCache uid of
        Some (val, expiresAt) \<Rightarrow>
          if expiresAt > now then (Returned val, userCache)
          else fetchUserInfo fetchUser later uid userCache
      | None \<Rightarrow> fetchUserInfo fetchUser later uid userCache)"

section \<open>The inbound message handler (monitor: \<open>handleMessage\<close>)\<close>

datatype dm_policy = DmDisabled | DmPairing | DmAllowlist | DmOpen

datatype group_policy = GroupDisabled | GroupAllowlist | GroupOpen

datatype chat_mode = Oncall | Onmessage | Onchar

datatype media_kind = Image | Audio | Video | Document | Unknown

record media_info =
  md_path :: string
  md_contentType :: "string option"
  md_kind :: media_kind

text \<open>The argument and the result of the SDK's \<open>resolveControlCommandGate\<close>.\<close>

record gate_authorizer =
  au_configured :: bool
  au_allowed :: bool

record gate_params =
  gp_useAccessGroups :: bool
  gp_authorizers :: "gate_authorizer list"
  gp_allowTextCommands :: bool
  gp_hasControlCommand :: bool

record gate_result =
  gr_commandAuthorized :: bool
  gr_shouldBlock :: bool

text \<open>
  What \<open>handleMessage\<close> closes over: the resolved account, the identity of the bot, and
  the collaborators it calls (the plug-in SDK's \<open>core.channel\<close> services, the REST client
  and the media download), each taken as a parameter with the configuration applied.
  The \<open>sdk_\<close> fields are the SDK functions of the same names and \<open>rest_\<close> the REST
  calls; \<open>sdk_readAllowFromStore\<close> is the content of the pairing store, \<open>[]\<close> when
  reading fails; \<open>mentionRegexCount\<close> is the length of
  \<open>buildMentionRegexes(cfg, agentId)\<close>; \<open>routeSessionKey kind peerId teamId\<close> is the
  session key of \<open>resolveAgentRoute\<close>; \<open>sdk_upsertPairingRequest\<close> gives the pairing code
  and whether the request is new.
\<close>

record monitor_env =
  acct_accountId :: string
  cfg_dmPolicy :: "dm_policy option"
  cfg_groupPolicy :: "group_policy option"
  cfg_defaultGroupPolicy :: "group_policy option"
  cfg_allowFrom :: "string list option"
  cfg_groupAllowFrom :: "string list option"
  cfg_chatmode :: "chat_mode option"
  cfg_oncharPrefixes :: "string list option"
  cfg_useAccessGroups :: "bool option"
  botUserId :: string
  botUsername :: "string option"
  sdk_readAllowFromStore :: "string list"
  sdk_shouldHandleTextCommands :: bool
  sdk_hasControlCommand :: "string \<Rightarrow> bool"
  sdk_resolveControlCommandGate :: "gate_params \<Rightarrow> gate_result"
  mentionRegexCount :: nat
  sdk_matchesMentionPatterns :: "string \<Rightarrow> bool"
  sdk_resolveRequireMention :: "string \<Rightarrow> bool"
  routeSessionKey :: "chat_type \<Rightarrow> string \<Rightarrow> string option \<Rightarrow> string"
  sdk_upsertPairingRequest :: "string \<Rightarrow> string \<times> bool"
  resolveMedia :: "rc_message \<Rightarrow> media_info list"
  rest_fetchChannel :: "string \<Rightarrow> rc_room completion"
  rest_fetchUser :: "string \<Rightarrow> rc_user completion"

text \<open>The three caches the handler mutates.\<close>

record monitor_state =
  st_recentInbound :: dedupe_cache
  st_roomCache :: "rc_room metadata_cache"
  st_userCache :: "rc_user metadata_cache"

text \<open>
  The pending-history entry handed to \<open>recordPendingHistoryEntryIfEnabled\<close> (its
  timestamp left out), and the fields of the context payload that the handler computes
  itself; the envelope text, the route and the reply dispatcher are the SDK's.
\<close>

record history_entry =
  h_sender :: string
  h_body :: string
  h_messageId :: string

record inbound_context =
  ctx_BodyForAgent :: string
  ctx_From :: string
  ctx_To :: string
  ctx_SessionKey :: string
  ctx_ChatType :: chat_type
  ctx_SenderName :: string
  ctx_SenderId :: string
  ctx_MessageSid :: string
  ctx_ReplyToId :: "string option"
  ctx_WasMentioned :: "bool option"
  ctx_CommandAuthorized :: bool
  ctx_Media :: "media_info list"

text \<open>
  How one call of \<open>handleMessage\<close> ends: one constructor for each \<open>return\<close> of the
  source in its order, \<open>Dispatched\<close> for the call of \<open>dispatchReplyFromConfig\<close>, and
  \<open>Failed\<close> for an error thrown by an awaited call.  \<open>DropDmPairing\<close> carries the pairing
  code to send when the request is new; \<open>RecordedHistory\<close> the entry recorded, if any.
\<close>

datatype outcome =
    DropNoMessageId
  | DropDuplicate
  | DropNoSender
  | DropOwnMessage
  | DropSystemMessage
  | DropDmDisabled
  | DropDmPairing "string option"
  | DropDmNotAllowed
  | DropGroupDisabled
  | DropGroupNoAllowlist
  | DropGroupSenderNotAllowed
  | DropUnauthorizedCommand
  | RecordedHistory "history_entry option"
  | DropEmptyBody
  | Dispatched inbound_context
  | Failed string

definition mediaKindName :: "media_kind \<Rightarrow> string" where
  "mediaKindName k =
     (case k of Image \<Rightarrow> ''image'' | Audio \<Rightarrow> ''audio'' | Video \<Rightarrow> ''video''
      | Document \<Rightarrow> ''document'' | Unknown \<Rightarrow> ''unknown'')"

definition buildAttachmentPlaceholder :: "media_info list \<Rightarrow> string" where
  "buildAttachmentPlaceholder mediaList =
     (if length mediaList = 0 then []
      else if length mediaList = 1
      then (let kind = (if md_kind (hd mediaList) = Unknown then Document else md_kind (hd mediaList))
            in ''<media:'' @ mediaKindName kind @ ''>'')
      else
        (let allImages = list_all (\<lambda>m. md_kind m = Image) mediaList;
             label = (if allImages then ''image'' else ''file'');
             suffix = (if length mediaList = 1 then label else label @ ''s'');
             tag = (if allImages then ''<media:image>'' else ''<media:document>'')
         in tag @ '' ('' @ showNat (length mediaList) @ '' '' @ suffix @ '')''))"

text \<open>
  The values \<open>handleMessage\<close> derives from the configuration and the sender before its
  access checks.
\<close>

definition rawTextOf :: "rc_message \<Rightarrow> string" where
  "rawTextOf msg = (case m_msg msg of None \<Rightarrow> [] | Some s \<Rightarrow> trim s)"

definition dmPolicyOf :: "monitor_env \<Rightarrow> dm_policy" where
  "dmPolicyOf env = (case cfg_dmPolicy env of None \<Rightarrow> DmPairing | Some p \<Rightarrow> p)"

definition groupPolicyOf :: "monitor_env \<Rightarrow> group_policy" where
  "groupPolicyOf env =
     (case cfg_groupPolicy env of
        Some p \<Rightarrow> p
      | None \<Rightarrow> (case cfg_defaultGroupPolicy env of Some p \<Rightarrow> p | None \<Rightarrow> GroupAllowlist))"

definition configAllowFrom :: "monitor_env \<Rightarrow> string list" where
  "configAllowFrom env =
     normalizeAllowList (case cfg_allowFrom env of None \<Rightarrow> [] | Some es \<Rightarrow> es)"

definition configGroupAllowFrom :: "monitor_env \<Rightarrow> string list" where
  "configGroupAllowFrom env =
     normalizeAllowList (case cfg_groupAllowFrom env of None \<Rightarrow> [] | Some es \<Rightarrow> es)"

definition storeAllowFrom :: "monitor_env \<Rightarrow> string list" where
  "storeAllowFrom env = normalizeAllowList (sdk_readAllowFromStore env)"

definition envAllowFrom :: "monitor_env \<Rightarrow> string list" where
  "envAllowFrom env = effectiveAllowFrom (configAllowFrom env) (storeAllowFrom env)"

definition envGroupAllowFrom :: "monitor_env \<Rightarrow> string list" where
  "envGroupAllowFrom env =
     effectiveGroupAllowFrom (configGroupAllowFrom env) (configAllowFrom env) (storeAllowFrom env)"

definition senderAllowedForCommands :: "monitor_env \<Rightarrow> string \<Rightarrow> string \<Rightarrow> bool" where
  "senderAllowedForCommands env senderId senderName =
     isSenderAllowed senderId (Some senderName) (envAllowFrom env)"

definition groupAllowedForCommands :: "monitor_env \<Rightarrow> string \<Rightarrow> string \<Rightarrow> bool" where
  "groupAllowedForCommands env senderId senderName =
     isSenderAllowed senderId (Some senderName) (envGroupAllowFrom env)"

definition isControlCommand :: "monitor_env \<Rightarrow> string \<Rightarrow> bool" where
  "isControlCommand env rawText \<longleftrightarrow> sdk_shouldHandleTextCommands env \<and> sdk_hasControlCommand env rawText"

definition commandGate :: "monitor_env \<Rightarrow> string \<Rightarrow> string \<Rightarrow> string \<Rightarrow> gate_result" where
  "commandGate env senderId senderName rawText =
     sdk_resolveControlCommandGate env
       \<lparr>gp_useAccessGroups = (cfg_useAccessGroups env \<noteq> Some False),
        gp_authorizers =
          [\<lparr>au_configured = (length (envAllowFrom env) > 0),
            au_allowed = senderAllowedForCommands env senderId senderName\<rparr>,
           \<lparr>au_configured = (length (envGroupAllowFrom env) > 0),
            au_allowed = groupAllowedForCommands env senderId senderName\<rparr>],
        gp_allowTextCommands = sdk_shouldHandleTextCommands env,
        gp_hasControlCommand = sdk_hasControlCommand env rawText\<rparr>"

definition commandAuthorized :: "monitor_env \<Rightarrow> chat_type \<Rightarrow> string \<Rightarrow> string \<Rightarrow> string \<Rightarrow> bool" where
  "commandAuthorized env kind senderId senderName rawText =
     (if kind = Direct
      then dmPolicyOf env = DmOpen \<or> senderAllowedForCommands env senderId senderName
      else gr_commandAuthorized (commandGate env senderId senderName rawText))"

text \<open>
  The access checks (\<open>// DM access control\<close> and \<open>// Group access control\<close>): \<open>Some\<close> of
  the outcome when one of them returns, \<open>None\<close> when the handler goes on.
\<close>

definition accessControl :: "monitor_env \<Rightarrow> chat_type \<Rightarrow> string \<Rightarrow> string \<Rightarrow> outcome option" where
  "accessControl env kind senderId senderName =
     (if kind = Direct
      then
        (if dmPolicyOf env = DmDisabled then Some DropDmDisabled
         else if dmPolicyOf env \<noteq> DmOpen \<and> \<not> senderAllowedForCommands env senderId senderName
         then
           (if dmPolicyOf env = DmPairing
            then (case sdk_upsertPairingRequest env senderId of
                    (code, created) \<Rightarrow> Some (DropDmPairing (if created then Some code else None)))
            else Some DropDmNotAllowed)
         else None)
      else
        (if groupPolicyOf env = GroupDisabled then Some DropGroupDisabled
         else if groupPolicyOf env = GroupAllowlist
         then
           (if length (envGroupAllowFrom env) = 0 then Some DropGroupNoAllowlist
            else if \<not> groupAllowedForCommands env senderId senderName
            then Some DropGroupSenderNotAllowed
            else None)
         else None))"

text \<open>The values between the access checks and the mention gate.\<close>

definition threadRootId :: "rc_message \<Rightarrow> string option" where
  "threadRootId msg =
     (case m_tmid msg of None \<Rightarrow> None | Some t \<Rightarrow> if trim t = [] then None else Some (trim t))"

definition sessionKey :: "monitor_env \<Rightarrow> chat_type \<Rightarrow> string option \<Rightarrow> string \<Rightarrow> string \<Rightarrow> rc_message \<Rightarrow> string" where
  "sessionKey env kind teamId roomId senderId msg =
     (let baseSessionKey = routeSessionKey env kind (if kind = Direct then senderId else roomId) teamId
      in case threadRootId msg of
           Some tid \<Rightarrow> baseSessionKey @ '':thread:'' @ tid
         | None \<Rightarrow> baseSessionKey)"

definition wasMentioned :: "monitor_env \<Rightarrow> chat_type \<Rightarrow> string \<Rightarrow> bool" where
  "wasMentioned env kind rawText \<longleftrightarrow>
     kind \<noteq> Direct \<and>
     ((case botUsername env of
         None \<Rightarrow> False
       | Some b \<Rightarrow>
           if b = [] then False
           else stringIncludes (toLowerCase rawText) (CHR ''@'' # toLowerCase b))
      \<or> sdk_matchesMentionPatterns env rawText)"

definition pendingBody :: "rc_message \<Rightarrow> string \<Rightarrow> string" where
  "pendingBody msg rawText =
     (if rawText \<noteq> [] then rawText
      else if m_file msg \<noteq> None then ''[Rocket.Chat file]''
      else if (case m_attachments msg of None \<Rightarrow> False | Some as \<Rightarrow> length as \<noteq> 0)
      then ''[Rocket.Chat attachment]''
      else [])"

text \<open>\<open>recordPendingHistory()\<close>: the entry it passes on, \<open>null\<close> being \<open>None\<close>.\<close>

definition recordPendingHistory ::
  "monitor_env \<Rightarrow> chat_type \<Rightarrow> string option \<Rightarrow> string \<Rightarrow> string \<Rightarrow> string \<Rightarrow> rc_message \<Rightarrow> outcome" where
  "recordPendingHistory env kind teamId roomId senderId senderName msg =
     (let historyKey = (if kind = Direct then None
                        else Some (sessionKey env kind teamId roomId senderId msg));
          trimmed = trim (pendingBody msg (rawTextOf msg))
      in RecordedHistory
           (if (case historyKey of None \<Rightarrow> False | Some k \<Rightarrow> k \<noteq> []) \<and> trimmed \<noteq> []
            then Some \<lparr>h_sender = senderName, h_body = trimmed, h_messageId = m_id msg\<rparr>
            else None))"

definition oncharEnabled :: "monitor_env \<Rightarrow> chat_type \<Rightarrow> bool" where
  "oncharEnabled env kind \<longleftrightarrow> cfg_chatmode env = Some Onchar \<and> kind \<noteq> Direct"

definition oncharResult :: "monitor_env \<Rightarrow> chat_type \<Rightarrow> string \<Rightarrow> onchar_result" where
  "oncharResult env kind rawText =
     (let oncharPrefixes = (if oncharEnabled env kind
                            then resolveOncharPrefixes (cfg_oncharPrefixes env) else [])
      in if oncharEnabled env kind then stripOncharPrefix rawText oncharPrefixes
         else \<lparr>triggered = False, stripped = rawText\<rparr>)"

definition shouldRequireMention :: "monitor_env \<Rightarrow> chat_type \<Rightarrow> string \<Rightarrow> bool" where
  "shouldRequireMention env kind roomId \<longleftrightarrow> kind \<noteq> Direct \<and> sdk_resolveRequireMention env roomId"

definition shouldBypassMention :: "monitor_env \<Rightarrow> chat_type \<Rightarrow> string \<Rightarrow> string \<Rightarrow> string \<Rightarrow> string \<Rightarrow> bool" where
  "shouldBypassMention env kind roomId senderId senderName rawText \<longleftrightarrow>
     isControlCommand env rawText \<and> shouldRequireMention env kind roomId \<and>
     \<not> wasMentioned env kind rawText \<and> commandAuthorized env kind senderId senderName rawText"

definition effectiveWasMentioned :: "monitor_env \<Rightarrow> chat_type \<Rightarrow> string \<Rightarrow> string \<Rightarrow> string \<Rightarrow> string \<Rightarrow> bool" where
  "effectiveWasMentioned env kind roomId senderId senderName rawText \<longleftrightarrow>
     wasMentioned env kind rawText \<or>
     shouldBypassMention env kind roomId senderId senderName rawText \<or>
     triggered (oncharResult env kind rawText)"

definition canDetectMention :: "monitor_env \<Rightarrow> bool" where
  "canDetectMention env \<longleftrightarrow>
     (case botUsername env of None \<Rightarrow> False | Some b \<Rightarrow> b \<noteq> []) \<or> mentionRegexCount env > 0"

text \<open>
  The body handed to the responder: the text (without its trigger prefix when one
  matched) and the media placeholder, the empty ones dropped, joined by a newline,
  trimmed, and cleared of the bot's mention.
\<close>

definition bodyText :: "monitor_env \<Rightarrow> chat_type \<Rightarrow> rc_message \<Rightarrow> string" where
  "bodyText env kind msg =
     (let mediaPlaceholder = buildAttachmentPlaceholder (resolveMedia env msg);
          bodySource = (if triggered (oncharResult env kind (rawTextOf msg))
                        then stripped (oncharResult env kind (rawTextOf msg))
                        else rawTextOf msg);
          baseText = trim (join [CHR 0x0A] (filter (\<lambda>s. s \<noteq> []) [bodySource, mediaPlaceholder]))
      in normalizeMention baseText (botUsername env))"

definition ctxPayload ::
  "monitor_env \<Rightarrow> chat_type \<Rightarrow> string option \<Rightarrow> string \<Rightarrow> string \<Rightarrow> string \<Rightarrow> rc_message \<Rightarrow> inbound_context" where
  "ctxPayload env kind teamId roomId senderId senderName msg =
     \<lparr>ctx_BodyForAgent = bodyText env kind msg,
      ctx_From = (if kind = Direct then ''rocketchat:'' @ senderId
                  else if kind = Group then ''rocketchat:group:'' @ roomId
                  else ''rocketchat:channel:'' @ roomId),
      ctx_To = (if kind = Direct then ''user:'' @ senderId else ''channel:'' @ roomId),
      ctx_SessionKey = sessionKey env kind teamId roomId senderId msg,
      ctx_ChatType = channelChatType kind,
      ctx_SenderName = senderName,
      ctx_SenderId = senderId,
      ctx_MessageSid = m_id msg,
      ctx_ReplyToId = threadRootId msg,
      ctx_WasMentioned = (if kind \<noteq> Direct
                          then Some (effectiveWasMentioned env kind roomId senderId senderName
                                       (rawTextOf msg))
                          else None),
      ctx_CommandAuthorized = commandAuthorized env kind senderId senderName (rawTextOf msg),
      ctx_Media = resolveMedia env msg\<rparr>"

text \<open>
  \<open>handleMessage\<close> from the access checks on, for a message whose room kind, team and
  sender name are resolved.
\<close>

definition decide ::
  "monitor_env \<Rightarrow> chat_type \<Rightarrow> string option \<Rightarrow> string \<Rightarrow> string \<Rightarrow> string \<Rightarrow> rc_message \<Rightarrow> outcome" where
  "decide env kind teamId roomId senderId senderName msg =
     (let rawText = rawTextOf msg in
      case accessControl env kind senderId senderName of
        Some dropped \<Rightarrow> dropped
      | None \<Rightarrow>
          if kind \<noteq> Direct \<and> gr_shouldBlock (commandGate env senderId senderName rawText)
          then DropUnauthorizedCommand
          else if oncharEnabled env kind \<and> \<not> triggered (oncharResult env kind rawText) \<and>
                  \<not> wasMentioned env kind rawText \<and> \<not> isControlCommand env rawText
          then recordPendingHistory env kind teamId roomId senderId senderName msg
          else if kind \<noteq> Direct \<and> shouldRequireMention env kind roomId \<and> canDetectMention env \<and>
                  \<not> effectiveWasMentioned env kind roomId senderId senderName rawText
          then recordPendingHistory env kind teamId roomId senderId senderName msg
          else if bodyText env kind msg = [] then DropEmptyBody
          else Dispatched (ctxPayload env kind teamId roomId senderId senderName msg))"

text \<open>
  The sender's display name:
  \<open>msg.u?.username?.trim() || (await resolveUserInfo(senderId))?.username?.trim() || senderId\<close>.
  The user look-up is made only when the message carries no user name.
\<close>

definition resolveSenderName ::
  "monitor_env \<Rightarrow> int \<Rightarrow> rc_sender \<Rightarrow> rc_user metadata_cache
     \<Rightarrow> string completion \<times> rc_user metadata_cache" where
  "resolveSenderName env now u userCache =
     (case (case u_username u of None \<Rightarrow> [] | Some n \<Rightarrow> trim n) of
        c # cs \<Rightarrow> (Returned (c # cs), userCache)
      | [] \<Rightarrow>
          (case resolveUserInfo (rest_fetchUser env) now now (u_id u) userCache of
             (Thrown err, userCache') \<Rightarrow> (Thrown err, userCache')
           | (Returned info, userCache') \<Rightarrow>
               (Returned
                  (case (case info of
                           None \<Rightarrow> []
                         | Some usr \<Rightarrow> (case usr_username usr of None \<Rightarrow> [] | Some n \<Rightarrow> trim n)) of
                     [] \<Rightarrow> u_id u
                   | c # cs \<Rightarrow> c # cs),
                userCache')))"

text \<open>
  \<open>handleMessage(roomId, msg)\<close>, with every \<open>Date.now()\<close> of one call reading \<open>now\<close>: the
  early returns, the de-duplication, the two look-ups, then \<open>decide\<close>.
\<close>

definition handleMessage ::
  "monitor_env \<Rightarrow> int \<Rightarrow> string \<Rightarrow> rc_message \<Rightarrow> monitor_state \<Rightarrow> outcome \<times> monitor_state" where
  "handleMessage env now roomId msg st =
     (if m_id msg = [] then (DropNoMessageId, st)
      else
        (case check recentInboundMessages (Some (dedupeKey (acct_accountId env) (m_id msg))) now
                (st_recentInbound st) of
           (seen, recent) \<Rightarrow>
             (let st1 = st\<lparr>st_recentInbound := recent\<rparr> in
              if seen then (DropDuplicate, st1)
              else
                (case m_u msg of
                   None \<Rightarrow> (DropNoSender, st1)
                 | Some u \<Rightarrow>
                     if u_id u = [] then (DropNoSender, st1)
                     else if u_id u = botUserId env then (DropOwnMessage, st1)
                     else if isSystemMessage msg then (DropSystemMessage, st1)
                     else
                       (case resolveRoomInfo (rest_fetchChannel env) now now roomId (st_roomCache st1) of
                          (Thrown err, rooms) \<Rightarrow> (Failed err, st1\<lparr>st_roomCache := rooms\<rparr>)
                        | (Returned roomInfo, rooms) \<Rightarrow>
                            (let st2 = st1\<lparr>st_roomCache := rooms\<rparr>;
                                 kind = roomKind (case roomInfo of None \<Rightarrow> None | Some r \<Rightarrow> r_t r);
                                 teamId = (case roomInfo of None \<Rightarrow> None | Some r \<Rightarrow> r_teamId r)
                             in case resolveSenderName env now u (st_userCache st2) of
                                  (Thrown err, users) \<Rightarrow> (Failed err, st2\<lparr>st_userCache := users\<rparr>)
                                | (Returned senderName, users) \<Rightarrow>
                                    (decide env kind teamId roomId (u_id u) senderName msg,
                                     st2\<lparr>st_userCache := users\<rparr>)))))))"

text \<open>
  An account to instantiate the statements below: trigger-prefix mode with the default
  prefixes, an open group policy, no allow-list entries, bot \<open>@bot\<close>, mention required in
  every room, text commands starting with \<open>/\<close>, and a command gate that authorizes a
  command when access groups are off or a configured authorizer allows the sender.
\<close>

definition exampleGate :: "gate_params \<Rightarrow> gate_result" where
  "exampleGate p =
     (let authorized = (\<not> gp_useAccessGroups p \<or>
                        list_ex (\<lambda>a. au_configured a \<and> au_allowed a) (gp_authorizers p))
      in \<lparr>gr_commandAuthorized = authorized,
          gr_shouldBlock = (gp_allowTextCommands p \<and> gp_hasControlCommand p \<and> \<not> authorized)\<rparr>)"

definition exampleRoom :: rc_room where
  "exampleRoom =
     \<lparr>r_id = ''room1'', r_name = Some ''general'', r_fname = None, r_t = Some ''c'',
      r_topic = None, r_teamId = None\<rparr>"

definition exampleEnv :: monitor_env where
  "exampleEnv =
     \<lparr>acct_accountId = ''default'',
      cfg_dmPolicy = None,
      cfg_groupPolicy = Some GroupOpen,
      cfg_defaultGroupPolicy = None,
      cfg_allowFrom = None,
      cfg_groupAllowFrom = None,
      cfg_chatmode = Some Onchar,
      cfg_oncharPrefixes = None,
      cfg_useAccessGroups = None,
      botUserId = ''bot-id'',
      botUsername = Some ''bot'',
      sdk_readAllowFromStore = [],
      sdk_shouldHandleTextCommands = True,
      sdk_hasControlCommand = (\<lambda>text. startsWith text ''/''),
      sdk_resolveControlCommandGate = exampleGate,
      mentionRegexCount = 0,
      sdk_matchesMentionPatterns = (\<lambda>text. False),
      sdk_resolveRequireMention = (\<lambda>roomId. True),
      routeSessionKey = (\<lambda>kind peerId teamId. ''agent:main:rocketchat:'' @ peerId),
      sdk_upsertPairingRequest = (\<lambda>senderId. (''PAIR-1'', True)),
      resolveMedia = (\<lambda>msg. []),
      rest_fetchChannel = (\<lambda>roomId. Returned exampleRoom),
      rest_fetchUser = (\<lambda>uid. Thrown ''Rocket.Chat API 404 Not Found: unknown error'')\<rparr>"

definition emptyState :: monitor_state where
  "emptyState = \<lparr>st_recentInbound = [], st_roomCache = Map.empty, st_userCache = Map.empty\<rparr>"

section \<open>The DDP connection (realtime: \<open>createRealtimeConnection\<close>)\<close>

text \<open>
  One call of \<open>createRealtimeConnection\<close> sets up a socket, registers its handlers and
  returns a promise; everything after that happens in the handlers, one event at a
  time.  The model is the state the handlers share and one step function per handler.
  The state holds the closure variables (\<open>opened\<close>, \<open>authenticated\<close>, whether the
  watchdog timer, the abort listener and the client ping interval are active), the
  socket's \<open>readyState\<close>, the promise, the module's \<open>ddpIdCounter\<close>, and the calls made on
  the socket and on the callbacks, in order.
\<close>

datatype ws_ready_state = CONNECTING | OPEN | CLOSING | CLOSED

datatype ddp_frame =
    DdpConnect
  | DdpPong "string option"
  | DdpLogin string string
  | DdpSub string
  | DdpPing string

datatype ws_call = WsSend ddp_frame | WsClose | WsTerminate

datatype callback =
    OnMessage string rc_message
  | OnConnected
  | OnDisconnected nat string
  | OnError string

datatype promise_state = Pending | Resolved | Rejected string

text \<open>
  \<open>data.error\<close> of a \<open>result\<close> frame, when truthy: an object with its \<open>message\<close> field (if
  it has one) and its \<open>JSON.stringify\<close> text, or another value with its \<open>String\<close> text.
\<close>

datatype ddp_error = ErrorObject "string option" string | ErrorValue string

text \<open>
  A parsed inbound frame (\<open>DDPMessage\<close>); \<open>d_error = None\<close> stands for an absent or falsy
  \<open>error\<close>, and \<open>d_args\<close> is \<open>fields.args\<close> when it is an array.
\<close>

record ddp_message =
  d_msg :: "string option"
  d_id :: "string option"
  d_collection :: "string option"
  d_eventName :: "string option"
  d_args :: "rc_message list option"
  d_error :: "ddp_error option"

record connection =
  c_opened :: bool
  c_authenticated :: bool
  c_watchdogArmed :: bool
  c_abortListening :: bool
  c_clientPing :: bool
  c_readyState :: ws_ready_state
  c_promise :: promise_state
  c_ddpIdCounter :: nat
  c_wsCalls :: "ws_call list"
  c_callbacks :: "callback list"

text \<open>
  What the environment delivers: the socket's four events (a \<open>message\<close> event carries
  the parsed frame, \<open>None\<close> when \<open>JSON.parse\<close> throws), the abort signal, the expiry of the
  watchdog timer and a tick of the client ping interval.
\<close>

datatype ws_event =
    EvOpen
  | EvMessage "ddp_message option"
  | EvClose nat string
  | EvError string
  | EvAbort
  | EvWatchdog
  | EvPingTick

text \<open>The state when \<open>createRealtimeConnection\<close> returns its promise.\<close>

definition createRealtimeConnection :: "bool \<Rightarrow> nat \<Rightarrow> connection" where
  "createRealtimeConnection hasAbortSignal ddpIdCounter =
     \<lparr>c_opened = False, c_authenticated = False, c_watchdogArmed = False,
      c_abortListening = hasAbortSignal, c_clientPing = False, c_readyState = CONNECTING,
      c_promise = Pending, c_ddpIdCounter = ddpIdCounter, c_wsCalls = [], c_callbacks = []\<rparr>"

text \<open>\<open>resolve\<close> and \<open>reject\<close> settle the promise once; later calls change nothing.\<close>

definition resolve :: "connection \<Rightarrow> connection" where
  "resolve s = (if c_promise s = Pending then s\<lparr>c_promise := Resolved\<rparr> else s)"

definition reject :: "string \<Rightarrow> connection \<Rightarrow> connection" where
  "reject message s = (if c_promise s = Pending then s\<lparr>c_promise := Rejected message\<rparr> else s)"

definition resetWatchdog :: "connection \<Rightarrow> connection" where
  "resetWatchdog s = s\<lparr>c_watchdogArmed := True\<rparr>"

definition clearWatchdog :: "connection \<Rightarrow> connection" where
  "clearWatchdog s = s\<lparr>c_watchdogArmed := False\<rparr>"

definition cleanup :: "connection \<Rightarrow> connection" where
  "cleanup s = (clearWatchdog s)\<lparr>c_abortListening := False\<rparr>"

text \<open>\<open>ws.close()\<close> and \<open>ws.terminate()\<close>: the call is made; the \<open>close\<close> event comes later.\<close>

definition wsClose :: "connection \<Rightarrow> connection" where
  "wsClose s =
     s\<lparr>c_wsCalls := c_wsCalls s @ [WsClose],
       c_readyState := (if c_readyState s = CLOSED then CLOSED else CLOSING)\<rparr>"

definition wsTerminate :: "connection \<Rightarrow> connection" where
  "wsTerminate s =
     s\<lparr>c_wsCalls := c_wsCalls s @ [WsTerminate],
       c_readyState := (if c_readyState s = CLOSED then CLOSED else CLOSING)\<rparr>"

definition ddpSend :: "ddp_frame \<Rightarrow> connection \<Rightarrow> connection" where
  "ddpSend frame s =
     (if c_readyState s = OPEN then s\<lparr>c_wsCalls := c_wsCalls s @ [WsSend frame]\<rparr> else s)"

definition nextDdpId :: "connection \<Rightarrow> string \<times> connection" where
  "nextDdpId s =
     (''openclaw-'' @ showNat (Suc (c_ddpIdCounter s)), s\<lparr>c_ddpIdCounter := Suc (c_ddpIdCounter s)\<rparr>)"

definition callback :: "callback \<Rightarrow> connection \<Rightarrow> connection" where
  "callback cb s = s\<lparr>c_callbacks := c_callbacks s @ [cb]\<rparr>"

definition loginErrorMessage :: "ddp_error \<Rightarrow> string" where
  "loginErrorMessage err =
     (case err of
        ErrorObject (Some message) json \<Rightarrow> message
      | ErrorObject None json \<Rightarrow> json
      | ErrorValue text \<Rightarrow> text)"

text \<open>\<open>ws.on("open", ...)\<close>\<close>

definition onOpen :: "connection \<Rightarrow> connection" where
  "onOpen s = ddpSend DdpConnect (resetWatchdog (s\<lparr>c_opened := True\<rparr>))"

text \<open>\<open>ws.on("message", ...)\<close>\<close>

definition onMessage :: "string \<Rightarrow> ddp_message option \<Rightarrow> connection \<Rightarrow> connection" where
  "onMessage authToken raw s0 =
     (let s = resetWatchdog s0 in
      case raw of
        None \<Rightarrow> s
      | Some data \<Rightarrow>
          if d_msg data = Some ''ping'' then ddpSend (DdpPong (d_id data)) s
          else if d_msg data = Some ''connected''
          then (case nextDdpId s of (ddpId, s1) \<Rightarrow> ddpSend (DdpLogin ddpId authToken) s1)
          else if d_msg data = Some ''result'' \<and> \<not> c_authenticated s
          then
            (case d_error data of
               Some err \<Rightarrow>
                 reject (''Rocket.Chat DDP login failed: '' @ loginErrorMessage err) (cleanup s)
             | None \<Rightarrow>
                 (case nextDdpId (callback OnConnected (s\<lparr>c_authenticated := True\<rparr>)) of
                    (ddpId, s1) \<Rightarrow> (ddpSend (DdpSub ddpId) s1)\<lparr>c_clientPing := True\<rparr>))
          else if d_msg data = Some ''changed'' \<and> d_collection data = Some ''stream-room-messages''
          then
            (case d_args data of
               Some (message # _) \<Rightarrow>
                 if m_id message \<noteq> []
                 then
                   (case (case m_rid message of Some rid \<Rightarrow> Some rid | None \<Rightarrow> d_eventName data) of
                      Some roomId \<Rightarrow>
                        if roomId \<noteq> [] \<and> roomId \<noteq> ''__my_messages__''
                        then callback (OnMessage roomId message) s
                        else s
                    | None \<Rightarrow> s)
                 else s
             | _ \<Rightarrow> s)
          else s)"

text \<open>
  \<open>ws.on("close", ...)\<close>, with the \<open>once("close")\<close> listener that stops the client pings.
\<close>

definition onClose :: "nat \<Rightarrow> string \<Rightarrow> connection \<Rightarrow> connection" where
  "onClose code reasonStr s0 =
     (let s = callback (OnDisconnected code reasonStr)
                (cleanup (clearWatchdog (s0\<lparr>c_readyState := CLOSED\<rparr>)));
          s1 = (if c_opened s then resolve s
                else reject (''Rocket.Chat WebSocket closed before open (code '' @ showNat code @ '')'') s)
      in s1\<lparr>c_clientPing := False\<rparr>)"

text \<open>\<open>ws.on("error", ...)\<close>\<close>

definition onError :: "string \<Rightarrow> connection \<Rightarrow> connection" where
  "onError err s = wsClose (callback (OnError err) s)"

text \<open>
  The abort listener (registered \<open>once\<close>), the watchdog's timeout and the ping interval.
  The dash in the watchdog's error message is written as a hyphen.
\<close>

definition onAbort :: "connection \<Rightarrow> connection" where
  "onAbort s =
     (if c_abortListening s then wsTerminate (clearWatchdog (s\<lparr>c_abortListening := False\<rparr>))
      else s)"

definition onWatchdogTimeout :: "connection \<Rightarrow> connection" where
  "onWatchdogTimeout s =
     (if c_watchdogArmed s
      then wsTerminate
             (callback (OnError ''DDP watchdog timeout - no traffic, terminating stale connection'')
                (s\<lparr>c_watchdogArmed := False\<rparr>))
      else s)"

definition onClientPing :: "connection \<Rightarrow> connection" where
  "onClientPing s =
     (if c_clientPing s \<and> c_readyState s = OPEN
      then (case nextDdpId s of (ddpId, s1) \<Rightarrow> ddpSend (DdpPing ddpId) s1)
      else s)"

fun step :: "string \<Rightarrow> connection \<Rightarrow> ws_event \<Rightarrow> connection" where
  "step authToken s EvOpen = onOpen (s\<lparr>c_readyState := OPEN\<rparr>)"
| "step authToken s (EvMessage raw) = onMessage authToken raw s"
| "step authToken s (EvClose code reasonStr) = onClose code reasonStr s"
| "step authToken s (EvError err) = onError err s"
| "step authToken s EvAbort = onAbort s"
| "step authToken s EvWatchdog = onWatchdogTimeout s"
| "step authToken s EvPingTick = onClientPing s"

definition run :: "string \<Rightarrow> ws_event list \<Rightarrow> connection \<Rightarrow> connection" where
  "run authToken events s = foldl (step authToken) s events"

text \<open>The frames of a handshake: the server's \<open>connected\<close> and the two \<open>result\<close>s of \<open>login\<close>.\<close>

definition connectedFrame :: ddp_message where
  "connectedFrame =
     \<lparr>d_msg = Some ''connected'', d_id = None, d_collection = None, d_eventName = None,
      d_args = None, d_error = None\<rparr>"

definition loginResultFrame :: "ddp_error option \<Rightarrow> ddp_message" where
  "loginResultFrame err =
     \<lparr>d_msg = Some ''result'', d_id = Some ''openclaw-1'', d_collection = None,
      d_eventName = None, d_args = None, d_error = err\<rparr>"

section \<open>Properties of the de-duplication cache\<close>

lemma length_evictOldest:
  "0 \<le> m \<Longrightarrow> [] \<notin> fst ` set c \<Longrightarrow> int (length (evictOldest m c)) \<le> m"
proof (induction m c rule: evictOldest.induct)
  case (1 m c)
  show ?case
  proof (cases c)
    case Nil
    then show ?thesis using "1.prems" by (subst evictOldest.simps) simp
  next
    case (Cons x xs)
    obtain k v where x: "x = (k, v)" by (cases x)
    have k: "k \<noteq> []" using "1.prems"(2) Cons x by force
    show ?thesis
    proof (cases "int (length c) > m")
      case True
      then have "evictOldest m c = evictOldest m (AList.delete k c)"
        using Cons x k by (subst evictOldest.simps) simp
      moreover have "[] \<notin> fst ` set (AList.delete k c)"
        using "1.prems"(2) by (auto simp: AList.delete_eq)
      ultimately show ?thesis
        using "1.IH" [OF True Cons x [symmetric] k "1.prems"(1)] by simp
    next
      case False
      then have "evictOldest m c = c"
        by (subst evictOldest.simps) simp
      then show ?thesis using False by simp
    qed
  qed
qed

lemma evictOldest_drop:
  "0 \<le> m \<Longrightarrow> [] \<notin> fst ` set c \<Longrightarrow> distinct (map fst c) \<Longrightarrow>
   evictOldest m c = drop (length c - nat m) c"
proof (induction m c rule: evictOldest.induct)
  case (1 m c)
  show ?case
  proof (cases c)
    case Nil
    then show ?thesis by (subst evictOldest.simps) simp
  next
    case (Cons x xs)
    obtain k v where x: "x = (k, v)" by (cases x)
    have k: "k \<noteq> []" using "1.prems"(2) Cons x by force
    have del: "AList.delete k c = xs"
      using "1.prems"(3) Cons x by (force simp: AList.delete_eq filter_id_conv)
    show ?thesis
    proof (cases "int (length c) > m")
      case True
      then have "evictOldest m c = evictOldest m xs"
        using Cons x k del by (subst evictOldest.simps) simp
      moreover have "evictOldest m xs = drop (length xs - nat m) xs"
        using "1.IH" [OF True Cons x [symmetric] k "1.prems"(1)] "1.prems"(2,3) Cons del
        by simp
      moreover have "length c - nat m = Suc (length xs - nat m)"
        using True Cons "1.prems"(1) by (simp; linarith?)
      ultimately show ?thesis using Cons by simp
    next
      case False
      then have "evictOldest m c = c"
        by (subst evictOldest.simps) simp
      moreover have "length c - nat m = 0" using False by (simp; linarith?)
      ultimately show ?thesis by simp
    qed
  qed
qed

lemma keys_delete: "fst ` set (AList.delete k c) = fst ` set c - {k}"
  by (induction c) auto

lemma record_append:
  "AList.update k v (AList.delete k c) = AList.delete k c @ [(k, v)]"
  by (induction c) auto

lemma length_record:
  "length (AList.update k v (AList.delete k c)) = Suc (length (AList.delete k c))"
  by (simp add: record_append)

lemma set_record:
  "set (AList.update k v (AList.delete k c)) = insert (k, v) (set (AList.delete k c))"
  by (simp add: record_append)

lemma length_delete_present:
  "k \<in> fst ` set c \<Longrightarrow> length (AList.delete k c) < length c"
  by (induction c) (auto simp: AList.delete_eq intro: le_imp_less_Suc length_filter_le)

lemma cache_inv_record: "cache_inv c \<Longrightarrow> k \<noteq> [] \<Longrightarrow> cache_inv (AList.update k v (AList.delete k c))"
  unfolding cache_inv_def
  by (auto simp: distinct_update distinct_delete set_record keys_delete)

lemma cache_inv_pruneExpired: "cache_inv c \<Longrightarrow> cache_inv (pruneExpired t c)"
  unfolding cache_inv_def pruneExpired_def
  by (auto simp: distinct_map_filter)

lemma cache_inv_evictOldest: "0 \<le> m \<Longrightarrow> cache_inv c \<Longrightarrow> cache_inv (evictOldest m c)"
proof -
  assume m: "0 \<le> m" and c: "cache_inv c"
  then have "evictOldest m c = drop (length c - nat m) c"
    by (simp add: evictOldest_drop cache_inv_def)
  moreover have "distinct (map fst (drop n c))" for n
    using c by (simp add: cache_inv_def drop_map [symmetric])
  moreover have "[] \<notin> fst ` set (drop n c)" for n
    using c by (auto simp: cache_inv_def dest: in_set_dropD)
  ultimately show ?thesis by (simp add: cache_inv_def)
qed

lemma check_inv:
  assumes "0 \<le> maxSize options" "cache_inv c"
  shows "cache_inv (snd (check options key now c))"
  using assms
  by (auto simp: check_def Let_def cache_inv_record cache_inv_pruneExpired cache_inv_evictOldest
      split: option.splits)

lemma check_bound:
  assumes m: "0 \<le> maxSize options" and inv: "cache_inv c"
    and le: "int (length c) \<le> maxSize options"
  shows "int (length (snd (check options key now c))) \<le> maxSize options"
proof (cases key)
  case None
  then show ?thesis using le by (simp add: check_def)
next
  case (Some k)
  let ?c1 = "AList.update k now (AList.delete k c)"
  show ?thesis
  proof (cases "k = []")
    case True
    then show ?thesis using le Some by (simp add: check_def)
  next
    case False
    have inv1: "cache_inv (pruneExpired (now - ttlMs options) ?c1)"
      using inv False by (simp add: cache_inv_record cache_inv_pruneExpired)
    have ev: "int (length (evictOldest (maxSize options) (pruneExpired (now - ttlMs options) ?c1)))
        \<le> maxSize options"
      using inv1 m by (simp add: length_evictOldest cache_inv_def)
    show ?thesis
    proof (cases "map_of c k")
      case None
      then show ?thesis using Some False ev by (simp add: check_def Let_def)
    next
      case (Some existing)
      then have "k \<in> fst ` set c" by (metis map_of_eq_None_iff option.distinct(1))
      then have "length ?c1 \<le> length c"
        using length_delete_present [of k c] by (simp add: length_record)
      then show ?thesis using \<open>key = Some k\<close> False ev Some le
        by (simp add: check_def Let_def)
    qed
  qed
qed

lemma checks_inv_bound:
  assumes "0 \<le> maxSize options"
  shows "cache_inv c \<Longrightarrow> int (length c) \<le> maxSize options \<Longrightarrow>
    cache_inv (checks options calls c) \<and> int (length (checks options calls c)) \<le> maxSize options"
proof (induction calls arbitrary: c)
  case Nil
  then show ?case by simp
next
  case (Cons call calls)
  obtain key now where call: "call = (key, now)" by (cases call)
  show ?case
    using Cons.IH [of "snd (check options key now c)"] Cons.prems assms call
    by (simp add: check_inv check_bound)
qed

lemma check_overflow_result:
  assumes m: "0 \<le> maxSize options" and inv: "cache_inv c" and k: "k \<noteq> []"
    and le: "int (length c) \<le> maxSize options"
    and over: "int (length (AList.update k now (AList.delete k c))) > maxSize options"
  shows "check options (Some k) now c =
     (False, (let pruned = pruneExpired (now - ttlMs options) (AList.update k now (AList.delete k c))
              in drop (length pruned - nat (maxSize options)) pruned))"
proof -
  let ?c1 = "AList.update k now (AList.delete k c)"
  have "map_of c k = None"
  proof (rule ccontr)
    assume "map_of c k \<noteq> None"
    then have "k \<in> fst ` set c" by (simp add: map_of_eq_None_iff)
    then have "length ?c1 \<le> length c"
      using length_delete_present [of k c] by (simp add: length_record)
    then show False using le over by simp
  qed
  moreover have "cache_inv (pruneExpired (now - ttlMs options) ?c1)"
    using inv k by (simp add: cache_inv_record cache_inv_pruneExpired)
  ultimately show ?thesis
    using k over m by (simp add: check_def Let_def evictOldest_drop cache_inv_def)
qed





















text \<open>
  Claim C2.  After any sequence of \<open>check\<close> calls, with any keys and timestamps, on a cache
  that starts empty, the number of entries is at most \<open>maxSize\<close>.  An insertion that takes
  the count over \<open>maxSize\<close> (a key that is not in a full cache) returns \<open>false\<close> and leaves
  the entries that are not older than the TTL at the time of the call, the new one among
  them, without the oldest of these beyond the last \<open>maxSize\<close>.
\<close>

theorem dedupe_cache_never_exceeds_max:
  assumes "0 \<le> maxSize options"
  shows "int (length (checks options calls [])) \<le> maxSize options \<and>
    (\<forall>k now. k \<noteq> [] \<and> k \<notin> fst ` set (checks options calls []) \<and>
        int (length (checks options calls [])) = maxSize options \<longrightarrow>
        check options (Some k) now (checks options calls []) =
          (False,
           (let kept = filter (\<lambda>(k', v). \<not> v < now - ttlMs options)
                         (checks options calls [] @ [(k, now)])
            in drop (length kept - nat (maxSize options)) kept)))"
proof -
  let ?c = "checks options calls []"
  have "cache_inv []" by (simp add: cache_inv_def)
  then have *: "cache_inv ?c" "int (length ?c) \<le> maxSize options"
    using checks_inv_bound [OF assms, of "[]" calls] assms by simp_all
  have "check options (Some k) now ?c =
          (False,
           (let kept = filter (\<lambda>(k', v). \<not> v < now - ttlMs options) (?c @ [(k, now)])
            in drop (length kept - nat (maxSize options)) kept))"
    if k: "k \<noteq> []" "k \<notin> fst ` set ?c" and full: "int (length ?c) = maxSize options" for k now
  proof -
    have c1: "AList.update k now (AList.delete k ?c) = ?c @ [(k, now)]"
      using record_append [of k now ?c] k(2) by simp
    have "int (length (AList.update k now (AList.delete k ?c))) > maxSize options"
      using full by (simp add: c1)
    from check_overflow_result [OF assms *(1) k(1) *(2) this]
    show ?thesis by (simp add: c1 pruneExpired_def)
  qed
  then show ?thesis using *(2) by blast
qed

theorem dedupe_cache_never_exceeds_max_witness:
  "0 \<le> maxSize \<lparr>ttlMs = 10, maxSize = 2\<rparr> \<and>
   checks \<lparr>ttlMs = 10, maxSize = 2\<rparr> [(Some ''a'', 0), (Some ''b'', 1)] [] = [(''a'', 0), (''b'', 1)] \<and>
   ''c'' \<notin> fst ` set [(''a'', 0 :: int), (''b'', 1)] \<and>
   int (length [(''a'', 0 :: int), (''b'', 1)]) = maxSize \<lparr>ttlMs = 10, maxSize = 2\<rparr> \<and>
   check \<lparr>ttlMs = 10, maxSize = 2\<rparr> (Some ''c'') 20 [(''a'', 0), (''b'', 1)]
     = (False, [(''c'', 20)]) \<and>
   check \<lparr>ttlMs = 10, maxSize = 2\<rparr> (Some ''c'') 11 [(''a'', 0), (''b'', 1)]
     = (False, [(''b'', 1), (''c'', 11)]) \<and>
   check \<lparr>ttlMs = 10, maxSize = 2\<rparr> (Some ''c'') 5 [(''a'', 0), (''b'', 1)]
     = (False, [(''b'', 1), (''c'', 5)])"
proof -
  have h: "0 \<le> maxSize \<lparr>ttlMs = 10, maxSize = 2\<rparr>" by simp
  have cs: "checks \<lparr>ttlMs = 10, maxSize = 2\<rparr> [(Some ''a'', 0), (Some ''b'', 1)] [] = [(''a'', 0), (''b'', 1)]"
    by (simp add: check_def)
  note t = dedupe_cache_never_exceeds_max [OF h, of "[(Some ''a'', 0), (Some ''b'', 1)]",
      unfolded cs, THEN conjunct2, rule_format]
  have a: "check \<lparr>ttlMs = 10, maxSize = 2\<rparr> (Some ''c'') 20 [(''a'', 0), (''b'', 1)]
     = (False, [(''c'', 20)])"
    using t [of "''c''" 20] by simp
  have b: "check \<lparr>ttlMs = 10, maxSize = 2\<rparr> (Some ''c'') 11 [(''a'', 0), (''b'', 1)]
     = (False, [(''b'', 1), (''c'', 11)])"
    using t [of "''c''" 11] by simp
  have c: "check \<lparr>ttlMs = 10, maxSize = 2\<rparr> (Some ''c'') 5 [(''a'', 0), (''b'', 1)]
     = (False, [(''b'', 1), (''c'', 5)])"
    using t [of "''c''" 5] by simp
  show ?thesis using h cs a b c by simp
qed

section \<open>Properties of the debouncer callbacks\<close>

lemma shouldDebounce_file:
  "m_file (e_msg entry) \<noteq> None \<or> (\<exists>fs. m_files (e_msg entry) = Some fs \<and> fs \<noteq> []) \<Longrightarrow>
   \<not> shouldDebounce hcc entry"
  by (auto simp: shouldDebounce_def)

text \<open>
  Claim C3.  Every event that carries an attachment, of any kind, is classified as not
  debounced.  The code does otherwise for an attachment that is not an uploaded file:
  \<open>shouldDebounce\<close> tests \<open>file\<close> and \<open>files\<close> only, so an event without them, with a
  non-empty text that is no control command, is classified as debounced whatever its
  \<open>attachments\<close> field holds.
\<close>

theorem shouldDebounce_ignores_attachments:
  assumes "m_file (e_msg entry) = None"
    and "m_files (e_msg entry) = None \<or> m_files (e_msg entry) = Some []"
    and "m_msg (e_msg entry) = Some text" and "trim text \<noteq> []"
    and "\<not> hasCommand (trim text)"
  shows "shouldDebounce hasCommand (entry\<lparr>e_msg := (e_msg entry)\<lparr>m_attachments := attachments\<rparr>\<rparr>)"
  using assms by (auto simp: shouldDebounce_def)

text \<open>
  An image attached by URL is batched, and \<open>onFlush\<close> clears it when the event is merged
  with a later one.
\<close>

theorem shouldDebounce_ignores_attachments_witness:
  "shouldDebounce (\<lambda>text. False)
     \<lparr>e_roomId = ''room1'',
      e_msg = (textMessage ''m1'' ''u1'' ''see this'')
                \<lparr>m_attachments := Some [imageAttachment ''/file-upload/x.png'']\<rparr>\<rparr> \<and>
   m_attachments (snd (hd (onFlush
     [\<lparr>e_roomId = ''room1'',
       e_msg = (textMessage ''m1'' ''u1'' ''see this'')
                 \<lparr>m_attachments := Some [imageAttachment ''/file-upload/x.png'']\<rparr>\<rparr>,
      \<lparr>e_roomId = ''room1'', e_msg = textMessage ''m2'' ''u1'' ''and this''\<rparr>]))) = None"
proof -
  let ?entry = "\<lparr>e_roomId = ''room1'', e_msg = textMessage ''m1'' ''u1'' ''see this''\<rparr>"
  have h1: "m_file (e_msg ?entry) = None" by (simp add: textMessage_def)
  have h2: "m_files (e_msg ?entry) = None \<or> m_files (e_msg ?entry) = Some []"
    by (simp add: textMessage_def)
  have h3: "m_msg (e_msg ?entry) = Some ''see this''" by (simp add: textMessage_def)
  have h4: "trim ''see this'' \<noteq> []"
    by (simp add: trim_def trimStart_def trimEnd_def isWhiteSpace_def)
  have h5: "\<not> (\<lambda>text. False) (trim ''see this'')" by simp
  have lost: "m_attachments (snd (hd (onFlush
     [\<lparr>e_roomId = ''room1'',
       e_msg = (textMessage ''m1'' ''u1'' ''see this'')
                 \<lparr>m_attachments := Some [imageAttachment ''/file-upload/x.png'']\<rparr>\<rparr>,
      \<lparr>e_roomId = ''room1'', e_msg = textMessage ''m2'' ''u1'' ''and this''\<rparr>]))) = None"
    by (simp add: onFlush_def)
  show ?thesis
    using shouldDebounce_ignores_attachments [OF h1 h2 h3 h4 h5,
        of "Some [imageAttachment ''/file-upload/x.png'']"] lost
    by simp
qed

lemma trim_Nil: "trim [] = []"
  by (simp add: trim_def trimStart_def trimEnd_def)

lemma combinedText_bodies:
  "combinedText entries = join [CHR 0x0A] (filter (\<lambda>s. s \<noteq> []) (map (\<lambda>e. trim (entryBody e)) entries))"
proof -
  have "(\<lambda>e. case m_msg (e_msg e) of None \<Rightarrow> [] | Some s \<Rightarrow> trim s) = (\<lambda>e. trim (entryBody e))"
    by (auto simp: entryBody_def trim_Nil split: option.splits)
  then show ?thesis by (simp add: combinedText_def)
qed

text \<open>
  Claim C4, as the code has it.  For every non-empty list of events flushed together,
  \<open>onFlush\<close> makes exactly one call of \<open>handleMessage\<close>, for the room of the most recent
  event.  A single event is passed as it is.  For more than one event the message passed
  is the most recent one with \<open>file\<close>, \<open>files\<close> and \<open>attachments\<close> cleared and with the text
  replaced by the newline-join, oldest first, of the trimmed bodies that are not empty
  after trimming; this is the newline-join of the bodies themselves when every body is
  non-empty and has no white space at either end.
\<close>

theorem onFlush_merges_trimmed_bodies:
  assumes "entries \<noteq> []"
  shows "length (onFlush entries) = 1 \<and>
    fst (hd (onFlush entries)) = e_roomId (last entries) \<and>
    (length entries = 1 \<longrightarrow> onFlush entries = [(e_roomId (hd entries), e_msg (hd entries))]) \<and>
    (length entries > 1 \<longrightarrow>
       snd (hd (onFlush entries)) =
         (e_msg (last entries))
           \<lparr>m_msg := Some (join [CHR 0x0A]
                       (filter (\<lambda>s. s \<noteq> []) (map (\<lambda>e. trim (entryBody e)) entries))),
            m_file := None, m_files := None, m_attachments := None\<rparr>) \<and>
    (length entries > 1 \<and> (\<forall>e \<in> set entries. entryBody e \<noteq> [] \<and> trim (entryBody e) = entryBody e) \<longrightarrow>
       m_msg (snd (hd (onFlush entries))) = Some (join [CHR 0x0A] (map entryBody entries)))"
proof -
  let ?text = "join [CHR 0x0A] (filter (\<lambda>s. s \<noteq> []) (map (\<lambda>e. trim (entryBody e)) entries))"
  obtain e es where entries: "entries = e # es" using assms by (cases entries) auto
  have single: "onFlush entries = [(e_roomId (hd entries), e_msg (hd entries))]"
    if "length entries = 1"
    using that entries by (simp add: onFlush_def)
  have merged: "onFlush entries =
      [(e_roomId (last entries),
        (e_msg (last entries))\<lparr>m_msg := Some ?text, m_file := None, m_files := None,
           m_attachments := None\<rparr>)]"
    if "length entries > 1"
  proof -
    have "length entries \<noteq> 1" using that by simp
    then show ?thesis
      unfolding onFlush_def Let_def combinedText_bodies
      by (simp add: entries del: last.simps)
  qed
  have same: "filter (\<lambda>s. s \<noteq> []) (map (\<lambda>e. trim (entryBody e)) xs) = map entryBody xs"
    if "\<forall>e \<in> set xs. entryBody e \<noteq> [] \<and> trim (entryBody e) = entryBody e" for xs
    using that by (induction xs) auto
  have len: "length (onFlush entries) = 1 \<and> fst (hd (onFlush entries)) = e_roomId (last entries)"
  proof (cases "length entries = 1")
    case True
    then show ?thesis using single entries by (cases es) auto
  next
    case False
    then have "length entries > 1" using entries by simp
    then show ?thesis using merged by simp
  qed
  have c3: "length entries = 1 \<longrightarrow> onFlush entries = [(e_roomId (hd entries), e_msg (hd entries))]"
    using single by blast
  have c4: "length entries > 1 \<longrightarrow>
       snd (hd (onFlush entries)) =
         (e_msg (last entries))\<lparr>m_msg := Some ?text, m_file := None, m_files := None,
            m_attachments := None\<rparr>"
    using merged by simp
  have c5: "length entries > 1 \<and>
      (\<forall>e \<in> set entries. entryBody e \<noteq> [] \<and> trim (entryBody e) = entryBody e) \<longrightarrow>
       m_msg (snd (hd (onFlush entries))) = Some (join [CHR 0x0A] (map entryBody entries))"
  proof (intro impI, elim conjE)
    assume n: "length entries > 1"
      and b: "\<forall>e \<in> set entries. entryBody e \<noteq> [] \<and> trim (entryBody e) = entryBody e"
    show "m_msg (snd (hd (onFlush entries))) = Some (join [CHR 0x0A] (map entryBody entries))"
      using merged [OF n] same [OF b] by simp
  qed
  from len c3 c4 c5 show ?thesis by blast
qed

theorem onFlush_merges_trimmed_bodies_witness:
  "[\<lparr>e_roomId = ''room1'', e_msg = textMessage ''m1'' ''u1'' ''hello ''\<rparr>,
    \<lparr>e_roomId = ''room1'', e_msg = textMessage ''m2'' ''u1'' ''world''\<rparr>] \<noteq> [] \<and>
   onFlush
     [\<lparr>e_roomId = ''room1'', e_msg = textMessage ''m1'' ''u1'' ''hello ''\<rparr>,
      \<lparr>e_roomId = ''room1'', e_msg = textMessage ''m2'' ''u1'' ''world''\<rparr>]
     = [(''room1'', textMessage ''m2'' ''u1'' (''hello'' @ [CHR 0x0A] @ ''world''))] \<and>
   onFlush [\<lparr>e_roomId = ''room1'', e_msg = textMessage ''m1'' ''u1'' ''hello ''\<rparr>]
     = [(''room1'', textMessage ''m1'' ''u1'' ''hello '')]"
proof -
  let ?e1 = "\<lparr>e_roomId = ''room1'', e_msg = textMessage ''m1'' ''u1'' ''hello ''\<rparr>"
  let ?e2 = "\<lparr>e_roomId = ''room1'', e_msg = textMessage ''m2'' ''u1'' ''world''\<rparr>"
  have ne2: "[?e1, ?e2] \<noteq> []" and ne1: "[?e1] \<noteq> []" by simp_all
  have t1: "trim (entryBody ?e1) = ''hello''" and t2: "trim (entryBody ?e2) = ''world''"
    by (simp_all add: entryBody_def textMessage_def trim_def trimStart_def trimEnd_def
        isWhiteSpace_def)
  have two: "onFlush [?e1, ?e2] = [(''room1'', textMessage ''m2'' ''u1'' (''hello'' @ [CHR 0x0A] @ ''world''))]"
    using onFlush_merges_trimmed_bodies [OF ne2] t1 t2
    by (cases "onFlush [?e1, ?e2]") (auto simp: textMessage_def)
  have one: "onFlush [?e1] = [(''room1'', textMessage ''m1'' ''u1'' ''hello '')]"
    using onFlush_merges_trimmed_bodies [OF ne1] by simp
  show ?thesis using two one by simp
qed

text \<open>
  The claim as written (the text is the newline-join of the bodies) fails for a body
  with trailing white space: \<open>"hello "\<close> and \<open>"world"\<close> merge into \<open>"hello\nworld"\<close>.
\<close>

theorem onFlush_untrimmed_body_counterexample:
  "length [\<lparr>e_roomId = ''room1'', e_msg = textMessage ''m1'' ''u1'' ''hello ''\<rparr>,
           \<lparr>e_roomId = ''room1'', e_msg = textMessage ''m2'' ''u1'' ''world''\<rparr>] > 1 \<and>
   m_msg (snd (hd (onFlush
     [\<lparr>e_roomId = ''room1'', e_msg = textMessage ''m1'' ''u1'' ''hello ''\<rparr>,
      \<lparr>e_roomId = ''room1'', e_msg = textMessage ''m2'' ''u1'' ''world''\<rparr>])))
   \<noteq> Some (join [CHR 0x0A] (map entryBody
     [\<lparr>e_roomId = ''room1'', e_msg = textMessage ''m1'' ''u1'' ''hello ''\<rparr>,
      \<lparr>e_roomId = ''room1'', e_msg = textMessage ''m2'' ''u1'' ''world''\<rparr>]))"
  by (simp add: onFlush_def combinedText_def entryBody_def textMessage_def trim_def trimStart_def
      trimEnd_def isWhiteSpace_def)

section \<open>Properties of the access checks and the mention gate\<close>

lemma set_uniqueInOrder: "set (uniqueInOrder xs) = set xs"
  by (simp add: uniqueInOrder_def)

lemma trim_star: "trim ''*'' = ''*''"
  by (simp add: trim_def trimStart_def trimEnd_def isWhiteSpace_def)

lemma normalizeAllowEntry_star: "normalizeAllowEntry ''*'' = ''*''"
  by (simp add: normalizeAllowEntry_def trim_star)

lemma star_in_normalizeAllowList:
  "''*'' \<in> set entries \<Longrightarrow> ''*'' \<in> set (normalizeAllowList entries)"
proof -
  assume "''*'' \<in> set entries"
  then have "normalizeAllowEntry ''*'' \<in> normalizeAllowEntry ` set entries" by (rule imageI)
  then show ?thesis
    by (simp add: normalizeAllowList_def set_uniqueInOrder normalizeAllowEntry_star)
qed

lemma isSenderAllowed_star: "''*'' \<in> set allowFrom \<Longrightarrow> isSenderAllowed senderId senderName allowFrom"
  by (auto simp: isSenderAllowed_def)

text \<open>
  Claim C10.  \<open>isSenderAllowed\<close> is false for every sender when the allow-list is empty
  and true for every sender, whatever the identifier and the display name, when the list
  contains \<open>*\<close>; \<open>normalizeAllowEntry\<close> leaves \<open>*\<close> as it is, so a configured \<open>*\<close> is in the
  normalized list; and in \<open>handleMessage\<close> a \<open>*\<close> among the direct-message entries, among
  the group entries or in the pairing store makes the sender allowed for the
  corresponding list and lets the message through the corresponding access check.
\<close>

theorem wildcard_allows_every_sender:
  "isSenderAllowed senderId senderName [] = False \<and>
   (''*'' \<in> set allowFrom \<longrightarrow> isSenderAllowed senderId senderName allowFrom) \<and>
   normalizeAllowEntry ''*'' = ''*'' \<and>
   (''*'' \<in> set entries \<longrightarrow>
      isSenderAllowed senderId senderName (normalizeAllowList entries)) \<and>
   ((\<exists>es. cfg_allowFrom env = Some es \<and> ''*'' \<in> set es) \<longrightarrow>
      senderAllowedForCommands env senderId name) \<and>
   ((\<exists>es. cfg_groupAllowFrom env = Some es \<and> ''*'' \<in> set es) \<longrightarrow>
      groupAllowedForCommands env senderId name) \<and>
   (''*'' \<in> set (sdk_readAllowFromStore env) \<longrightarrow>
      senderAllowedForCommands env senderId name \<and> groupAllowedForCommands env senderId name) \<and>
   (''*'' \<in> set (envAllowFrom env) \<and> dmPolicyOf env \<noteq> DmDisabled \<longrightarrow>
      accessControl env Direct senderId name = None) \<and>
   (''*'' \<in> set (envGroupAllowFrom env) \<and> groupPolicyOf env \<noteq> GroupDisabled \<and> kind \<noteq> Direct \<longrightarrow>
      accessControl env kind senderId name = None)"
proof -
  have a: "isSenderAllowed senderId senderName [] = False"
    by (simp add: isSenderAllowed_def)
  have b: "''*'' \<in> set entries \<longrightarrow> isSenderAllowed senderId senderName (normalizeAllowList entries)"
    by (simp add: isSenderAllowed_star star_in_normalizeAllowList)
  have c: "senderAllowedForCommands env senderId name"
    if "cfg_allowFrom env = Some es" "''*'' \<in> set es" for es
    using that star_in_normalizeAllowList [of es]
    by (auto simp: senderAllowedForCommands_def envAllowFrom_def effectiveAllowFrom_def
        configAllowFrom_def set_uniqueInOrder intro!: isSenderAllowed_star)
  have d: "groupAllowedForCommands env senderId name"
    if "cfg_groupAllowFrom env = Some es" "''*'' \<in> set es" for es
  proof -
    have "''*'' \<in> set (configGroupAllowFrom env)"
      using that star_in_normalizeAllowList [of es] by (simp add: configGroupAllowFrom_def)
    then have "''*'' \<in> set (envGroupAllowFrom env)"
      by (auto simp: envGroupAllowFrom_def effectiveGroupAllowFrom_def set_uniqueInOrder)
    then show ?thesis
      by (simp add: groupAllowedForCommands_def isSenderAllowed_star)
  qed
  have e: "senderAllowedForCommands env senderId name \<and> groupAllowedForCommands env senderId name"
    if "''*'' \<in> set (sdk_readAllowFromStore env)"
  proof -
    have "''*'' \<in> set (storeAllowFrom env)"
      using that by (simp add: storeAllowFrom_def star_in_normalizeAllowList)
    then have "''*'' \<in> set (envAllowFrom env)" "''*'' \<in> set (envGroupAllowFrom env)"
      by (auto simp: envAllowFrom_def effectiveAllowFrom_def envGroupAllowFrom_def
          effectiveGroupAllowFrom_def set_uniqueInOrder)
    then show ?thesis
      by (simp add: senderAllowedForCommands_def groupAllowedForCommands_def isSenderAllowed_star)
  qed
  have f: "accessControl env Direct senderId name = None"
    if "''*'' \<in> set (envAllowFrom env)" "dmPolicyOf env \<noteq> DmDisabled"
    using that by (simp add: accessControl_def senderAllowedForCommands_def isSenderAllowed_star)
  have g: "accessControl env kind senderId name = None"
    if "''*'' \<in> set (envGroupAllowFrom env)" "groupPolicyOf env \<noteq> GroupDisabled" "kind \<noteq> Direct"
    using that
    by (auto simp: accessControl_def groupAllowedForCommands_def isSenderAllowed_star)
  have h: "''*'' \<in> set allowFrom \<longrightarrow> isSenderAllowed senderId senderName allowFrom"
    by (simp add: isSenderAllowed_star)
  from a h normalizeAllowEntry_star b c d e f g show ?thesis by blast
qed

theorem wildcard_allows_every_sender_witness:
  "''*'' \<in> set [''@bob'', ''*''] \<and>
   isSenderAllowed ''u9'' (Some ''mallory'') [''bob'', ''*''] \<and>
   isSenderAllowed ''u9'' None (normalizeAllowList [''@bob'', ''*'']) \<and>
   senderAllowedForCommands (exampleEnv\<lparr>cfg_allowFrom := Some [''*'']\<rparr>) ''u9'' ''mallory'' \<and>
   accessControl (exampleEnv\<lparr>cfg_allowFrom := Some [''*'']\<rparr>) Direct ''u9'' ''mallory'' = None \<and>
   groupAllowedForCommands
     (exampleEnv\<lparr>cfg_groupPolicy := Some GroupAllowlist, cfg_groupAllowFrom := Some [''*'']\<rparr>)
     ''u9'' ''mallory'' \<and>
   accessControl
     (exampleEnv\<lparr>cfg_groupPolicy := Some GroupAllowlist, cfg_groupAllowFrom := Some [''*'']\<rparr>)
     Channel ''u9'' ''mallory'' = None"
proof -
  let ?dm = "exampleEnv\<lparr>cfg_allowFrom := Some [''*'']\<rparr>"
  let ?gr = "exampleEnv\<lparr>cfg_groupPolicy := Some GroupAllowlist, cfg_groupAllowFrom := Some [''*'']\<rparr>"
  have h1: "''*'' \<in> set (envAllowFrom ?dm)" by code_simp
  have h2: "dmPolicyOf ?dm \<noteq> DmDisabled" by code_simp
  have h3: "''*'' \<in> set (envGroupAllowFrom ?gr)" by code_simp
  have h4: "groupPolicyOf ?gr \<noteq> GroupDisabled" by code_simp
  note dm = wildcard_allows_every_sender
    [where env = ?dm and senderId = "''u9''" and name = "''mallory''"
       and senderName = "Some ''mallory''" and allowFrom = "[''bob'', ''*'']"
       and entries = "[''@bob'', ''*'']" and kind = Channel]
  note gr = wildcard_allows_every_sender
    [where env = ?gr and senderId = "''u9''" and name = "''mallory''"
       and senderName = None and allowFrom = "[''bob'', ''*'']"
       and entries = "[''@bob'', ''*'']" and kind = Channel]
  show ?thesis
    using dm gr h1 h2 h3 h4 by (simp add: exampleEnv_def)
qed

lemma accessControl_empty_group_allowlist:
  "kind \<noteq> Direct \<Longrightarrow> groupPolicyOf env = GroupAllowlist \<Longrightarrow> envGroupAllowFrom env = [] \<Longrightarrow>
   accessControl env kind senderId senderName = Some DropGroupNoAllowlist"
  by (simp add: accessControl_def)

lemma decide_Direct_ChatType:
  "decide env kind teamId roomId senderId senderName msg = Dispatched ctx \<Longrightarrow>
   ctx_ChatType ctx = channelChatType kind"
  by (auto simp: decide_def Let_def recordPendingHistory_def ctxPayload_def accessControl_def
      split: option.splits if_splits prod.splits)

text \<open>
  Claim C8.  When the group policy is \<open>allowlist\<close> and the effective group allow-list is
  empty, every message of a group or channel conversation, from every sender, ends at
  the \<open>no group allowlist\<close> return; and no call of \<open>handleMessage\<close> dispatches a turn for a
  conversation that is not direct or records pending history.
\<close>

theorem empty_group_allowlist_rejects_all:
  assumes "groupPolicyOf env = GroupAllowlist" and "envGroupAllowFrom env = []"
  shows "(kind \<noteq> Direct \<longrightarrow>
            decide env kind teamId roomId senderId senderName msg = DropGroupNoAllowlist) \<and>
         (\<forall>ctx. fst (handleMessage env now roomId msg st) = Dispatched ctx \<longrightarrow>
            ctx_ChatType ctx = Direct) \<and>
         (\<forall>entry. fst (handleMessage env now roomId msg st) \<noteq> RecordedHistory entry)"
proof -
  have d: "decide env k t r s n m = DropGroupNoAllowlist" if "k \<noteq> Direct" for k t r s n m
    using that assms by (simp add: decide_def accessControl_empty_group_allowlist)
  have e: "decide env k t r s n m = Dispatched ctx \<Longrightarrow> ctx_ChatType ctx = Direct" for k t r s n m ctx
    using d [of k t r s n m] by (cases "k = Direct") (auto simp: channelChatType_def dest: decide_Direct_ChatType)
  have f: "decide env k t r s n m \<noteq> RecordedHistory entry" for k t r s n m entry
  proof (cases "k = Direct")
    case True
    then show ?thesis
      by (auto simp: decide_def Let_def oncharEnabled_def accessControl_def
          split: option.splits if_splits prod.splits)
  next
    case False
    then show ?thesis using d [of k t r s n m] by simp
  qed
  have g: "(\<forall>ctx. fst (handleMessage env now roomId msg st) = Dispatched ctx \<longrightarrow>
            ctx_ChatType ctx = Direct) \<and>
         (\<forall>entry. fst (handleMessage env now roomId msg st) \<noteq> RecordedHistory entry)"
    using e f
    by (auto simp: handleMessage_def Let_def split: prod.splits option.splits completion.splits if_splits)
  show ?thesis using d g by blast
qed

theorem empty_group_allowlist_rejects_all_witness:
  "groupPolicyOf (exampleEnv\<lparr>cfg_groupPolicy := None\<rparr>) = GroupAllowlist \<and>
   envGroupAllowFrom (exampleEnv\<lparr>cfg_groupPolicy := None\<rparr>) = [] \<and>
   Channel \<noteq> Direct \<and>
   decide (exampleEnv\<lparr>cfg_groupPolicy := None\<rparr>) Channel None ''room1'' ''u1'' ''alice''
     (textMessage ''m1'' ''u1'' ''> hello'') = DropGroupNoAllowlist \<and>
   fst (handleMessage (exampleEnv\<lparr>cfg_groupPolicy := None\<rparr>) 1000 ''room1''
          (textMessage ''m1'' ''u1'' ''> hello'') emptyState) = DropGroupNoAllowlist"
proof -
  let ?env = "exampleEnv\<lparr>cfg_groupPolicy := None\<rparr>"
  have h1: "groupPolicyOf ?env = GroupAllowlist" by code_simp
  have h2: "envGroupAllowFrom ?env = []" by code_simp
  have hm: "fst (handleMessage ?env 1000 ''room1'' (textMessage ''m1'' ''u1'' ''> hello'') emptyState)
      = DropGroupNoAllowlist"
    by code_simp
  show ?thesis
    using h1 h2 hm
      empty_group_allowlist_rejects_all [OF h1 h2, of Channel None "''room1''" "''u1''" "''alice''"
        "textMessage ''m1'' ''u1'' ''> hello''"]
    by simp
qed








section \<open>Properties of the metadata look-ups\<close>

text \<open>
  Claim C9.  \<open>resolveRoomInfo\<close> and \<open>resolveUserInfo\<close> return a value however the fetch
  ends.  On a miss, and on an entry whose expiry is not after the clock reading, the
  result is the outcome of a new fetch, stored with a new expiry: the fetched value, or
  \<open>null\<close> when the fetch throws.  Only an entry that expires later is answered from the
  cache.
\<close>

theorem metadata_lookups_never_throw:
  "(\<exists>v. fst (resolveRoomInfo fetchRoom now later roomId rooms) = Returned v) \<and>
   (\<exists>v. fst (resolveUserInfo fetchUsr now later uid users) = Returned v) \<and>
   ((rooms roomId = None \<or> (\<exists>v e. rooms roomId = Some (v, e) \<and> e \<le> now)) \<longrightarrow>
      resolveRoomInfo fetchRoom now later roomId rooms =
        (case fetchRoom roomId of
           Returned info \<Rightarrow>
             (Returned (Some info), rooms(roomId \<mapsto> (Some info, later + ROOM_CACHE_TTL_MS)))
         | Thrown err \<Rightarrow> (Returned None, rooms(roomId \<mapsto> (None, later + ROOM_CACHE_TTL_MS))))) \<and>
   ((users uid = None \<or> (\<exists>v e. users uid = Some (v, e) \<and> e \<le> now)) \<longrightarrow>
      resolveUserInfo fetchUsr now later uid users =
        (case fetchUsr uid of
           Returned info \<Rightarrow>
             (Returned (Some info), users(uid \<mapsto> (Some info, later + USER_CACHE_TTL_MS)))
         | Thrown err \<Rightarrow> (Returned None, users(uid \<mapsto> (None, later + USER_CACHE_TTL_MS))))) \<and>
   (\<forall>v e. rooms roomId = Some (v, e) \<and> now < e \<longrightarrow>
      resolveRoomInfo fetchRoom now later roomId rooms = (Returned v, rooms)) \<and>
   (\<forall>v e. users uid = Some (v, e) \<and> now < e \<longrightarrow>
      resolveUserInfo fetchUsr now later uid users = (Returned v, users))"
  by (auto simp: resolveRoomInfo_def fetchRoomInfo_def resolveUserInfo_def fetchUserInfo_def
      split: option.splits completion.splits)

theorem metadata_lookups_never_throw_witness:
  "(Map.empty(''room1'' \<mapsto> (Some exampleRoom, 500))) ''room1'' = Some (Some exampleRoom, 500) \<and>
   (500::int) \<le> 1000 \<and>
   resolveRoomInfo (\<lambda>roomId. Thrown ''timeout'') 1000 1002 ''room1''
       (Map.empty(''room1'' \<mapsto> (Some exampleRoom, 500)))
     = (Returned None, (Map.empty(''room1'' \<mapsto> (Some exampleRoom, 500)))(''room1'' \<mapsto> (None, 301002))) \<and>
   (1000::int) < 1500 \<and>
   resolveRoomInfo (\<lambda>roomId. Thrown ''timeout'') 1000 1002 ''room1''
       (Map.empty(''room1'' \<mapsto> (Some exampleRoom, 1500)))
     = (Returned (Some exampleRoom), Map.empty(''room1'' \<mapsto> (Some exampleRoom, 1500))) \<and>
   (Map.empty :: rc_user metadata_cache) ''u1'' = None \<and>
   resolveUserInfo (\<lambda>uid. Thrown ''404'') 1000 1002 ''u1'' Map.empty
     = (Returned None, Map.empty(''u1'' \<mapsto> (None, 601002)))"
proof -
  let ?expired = "Map.empty(''room1'' \<mapsto> (Some exampleRoom, 500::int))"
  let ?fresh = "Map.empty(''room1'' \<mapsto> (Some exampleRoom, 1500::int))"
  note a = metadata_lookups_never_throw
    [where rooms = ?expired and roomId = "''room1''" and now = 1000 and later = 1002
       and fetchRoom = "\<lambda>roomId. Thrown ''timeout''" and users = Map.empty and uid = "''u1''"
       and fetchUsr = "\<lambda>uid. Thrown ''404''"]
  note b = metadata_lookups_never_throw
    [where rooms = ?fresh and roomId = "''room1''" and now = 1000 and later = 1002
       and fetchRoom = "\<lambda>roomId. Thrown ''timeout''" and users = Map.empty and uid = "''u1''"
       and fetchUsr = "\<lambda>uid. Thrown ''404''"]
  show ?thesis
    using a b by (simp add: ROOM_CACHE_TTL_MS_def USER_CACHE_TTL_MS_def)
qed

section \<open>Properties of the connection\<close>

lemma c_opened_onMessage: "c_opened (onMessage tok raw s) = c_opened s"
  by (auto simp: onMessage_def Let_def resetWatchdog_def ddpSend_def nextDdpId_def reject_def
      cleanup_def clearWatchdog_def callback_def
      split: option.splits list.splits prod.splits)

lemma c_opened_step: "c_opened (step tok s ev) = (c_opened s \<or> ev = EvOpen)"
  by (cases ev)
    (auto simp: c_opened_onMessage onOpen_def onClose_def onError_def onAbort_def
      onWatchdogTimeout_def onClientPing_def Let_def resetWatchdog_def ddpSend_def nextDdpId_def
      reject_def resolve_def cleanup_def clearWatchdog_def callback_def wsClose_def wsTerminate_def)

lemma c_opened_run:
  "c_opened (run tok evs s) = (c_opened s \<or> EvOpen \<in> set evs)"
  unfolding run_def
  by (induction evs arbitrary: s) (auto simp: c_opened_step)

lemma run_append: "run tok (evs @ [ev]) s = step tok (run tok evs s) ev"
  by (simp add: run_def)

lemma c_promise_onClose:
  "c_promise s = Pending \<Longrightarrow>
   c_promise (onClose code reasonStr s) =
     (if c_opened s then Resolved
      else Rejected (''Rocket.Chat WebSocket closed before open (code '' @ showNat code @ '')''))"
  by (simp add: onClose_def Let_def callback_def cleanup_def clearWatchdog_def resolve_def reject_def)

text \<open>
  Claim C5, as the code has it.  While the promise is pending, a \<open>close\<close> event settles
  it by whether the socket had opened, and by nothing else: it is rejected with
  \<open>Rocket.Chat WebSocket closed before open (code N)\<close> when no \<open>open\<close> event came before,
  and resolved when one did, authenticated or not.
\<close>

theorem close_outcome_depends_on_open_only:
  assumes "c_promise (run authToken evs (createRealtimeConnection hasAbortSignal n)) = Pending"
  shows "c_promise (run authToken (evs @ [EvClose code reasonStr])
                      (createRealtimeConnection hasAbortSignal n)) =
     (if EvOpen \<in> set evs then Resolved
      else Rejected (''Rocket.Chat WebSocket closed before open (code '' @ showNat code @ '')''))"
proof -
  have "c_opened (run authToken evs (createRealtimeConnection hasAbortSignal n)) = (EvOpen \<in> set evs)"
    by (simp add: c_opened_run createRealtimeConnection_def)
  then show ?thesis
    using c_promise_onClose [OF assms] by (simp add: run_append)
qed

theorem close_outcome_depends_on_open_only_witness:
  "c_promise (run ''token'' [EvOpen, EvMessage (Some connectedFrame)]
      (createRealtimeConnection True 0)) = Pending \<and>
   c_promise (run ''token'' ([EvOpen, EvMessage (Some connectedFrame)] @ [EvClose 1000 []])
      (createRealtimeConnection True 0)) = Resolved \<and>
   c_promise (run ''token'' [] (createRealtimeConnection True 0)) = Pending \<and>
   c_promise (run ''token'' ([] @ [EvClose 1006 []]) (createRealtimeConnection True 0))
     = Rejected ''Rocket.Chat WebSocket closed before open (code 1006)''"
proof -
  have p1: "c_promise (run ''token'' [EvOpen, EvMessage (Some connectedFrame)]
      (createRealtimeConnection True 0)) = Pending"
    by code_simp
  have p2: "c_promise (run ''token'' [] (createRealtimeConnection True 0)) = Pending"
    by code_simp
  have n: "showNat 1006 = ''1006''" by code_simp
  show ?thesis
    using p1 p2 close_outcome_depends_on_open_only [OF p1, of 1000 "[]"]
      close_outcome_depends_on_open_only [OF p2, of 1006 "[]"]
    by (simp add: n)
qed

text \<open>
  The claim as written (a close before authentication ends in a failure, unlike a close
  after it) fails once the socket is open: a close after \<open>connected\<close> and before the login
  result resolves the promise, as a close after the login does.
\<close>

theorem close_before_authentication_counterexample:
  "c_authenticated (run ''token'' [EvOpen, EvMessage (Some connectedFrame)]
      (createRealtimeConnection True 0)) = False \<and>
   c_promise (run ''token'' [EvOpen, EvMessage (Some connectedFrame), EvClose 1000 []]
      (createRealtimeConnection True 0)) = Resolved \<and>
   c_authenticated (run ''token''
      [EvOpen, EvMessage (Some connectedFrame), EvMessage (Some (loginResultFrame None))]
      (createRealtimeConnection True 0)) = True \<and>
   c_promise (run ''token''
      [EvOpen, EvMessage (Some connectedFrame), EvMessage (Some (loginResultFrame None)),
       EvClose 1000 []]
      (createRealtimeConnection True 0)) = Resolved"
  by code_simp

text \<open>
  Claim C6.  When the login result carries an error, the promise is rejected with a
  message that names the login failure, the connection is closed and nothing is
  retried.  The code rejects with such a message and sends nothing more, but it does
  not close the connection: the handler of a failed login makes no call on the socket
  at all, neither \<open>ws.close()\<close> nor \<open>ws.terminate()\<close>, and the socket keeps its state.
\<close>

theorem login_failure_leaves_socket_open:
  assumes "\<not> c_authenticated s" and "c_promise s = Pending"
    and "d_msg data = Some ''result''" and "d_error data = Some err"
  shows "c_promise (onMessage authToken (Some data) s)
           = Rejected (''Rocket.Chat DDP login failed: '' @ loginErrorMessage err) \<and>
         c_wsCalls (onMessage authToken (Some data) s) = c_wsCalls s \<and>
         c_readyState (onMessage authToken (Some data) s) = c_readyState s"
  using assms
  by (simp add: onMessage_def Let_def resetWatchdog_def cleanup_def clearWatchdog_def reject_def)

text \<open>
  After a handshake whose login is refused, the calls on the socket are the two sends of
  the handshake, and the socket is still open.
\<close>

theorem login_failure_leaves_socket_open_witness:
  "c_promise (run ''token''
      [EvOpen, EvMessage (Some connectedFrame),
       EvMessage (Some (loginResultFrame (Some (ErrorObject (Some ''You must be logged in'') ''{}''))))]
      (createRealtimeConnection True 0))
     = Rejected ''Rocket.Chat DDP login failed: You must be logged in'' \<and>
   c_wsCalls (run ''token''
      [EvOpen, EvMessage (Some connectedFrame),
       EvMessage (Some (loginResultFrame (Some (ErrorObject (Some ''You must be logged in'') ''{}''))))]
      (createRealtimeConnection True 0))
     = [WsSend DdpConnect, WsSend (DdpLogin ''openclaw-1'' ''token'')] \<and>
   c_readyState (run ''token''
      [EvOpen, EvMessage (Some connectedFrame),
       EvMessage (Some (loginResultFrame (Some (ErrorObject (Some ''You must be logged in'') ''{}''))))]
      (createRealtimeConnection True 0))
     = OPEN"
proof -
  let ?s = "run ''token'' [EvOpen, EvMessage (Some connectedFrame)] (createRealtimeConnection True 0)"
  let ?data = "loginResultFrame (Some (ErrorObject (Some ''You must be logged in'') ''{}''))"
  have h1: "\<not> c_authenticated ?s" by code_simp
  have h2: "c_promise ?s = Pending" by code_simp
  have h3: "d_msg ?data = Some ''result''" by (simp add: loginResultFrame_def)
  have h4: "d_error ?data = Some (ErrorObject (Some ''You must be logged in'') ''{}'')"
    by (simp add: loginResultFrame_def)
  have calls: "c_wsCalls ?s = [WsSend DdpConnect, WsSend (DdpLogin ''openclaw-1'' ''token'')]"
    by code_simp
  have st: "c_readyState ?s = OPEN" by code_simp
  have r: "run ''token''
      [EvOpen, EvMessage (Some connectedFrame), EvMessage (Some ?data)]
      (createRealtimeConnection True 0) = onMessage ''token'' (Some ?data) ?s"
    by (simp add: run_def)
  show ?thesis
    unfolding r
    using login_failure_leaves_socket_open [OF h1 h2 h3 h4, of "''token''"] calls st
    by (simp add: loginErrorMessage_def)
qed

end
